theory Spec2Isabelle
  imports Complex_Main "HOL-Library.Char_ord"
begin

chapter \<open>Hytale RAG: tools, search and statistics\<close>

text \<open>
  A shallow embedding of the TypeScript sources of \<^verbatim>\<open>hytale-rag\<close>:
  \<^verbatim>\<open>db.ts\<close> (code-table search and statistics), \<^verbatim>\<open>core/schemas.ts\<close> (tool input
  schemas), \<^verbatim>\<open>core/tools/search-docs.ts\<close>, \<^verbatim>\<open>core/tools/docs-stats.ts\<close>,
  \<^verbatim>\<open>embedder.ts\<close> and the entry point \<^verbatim>\<open>index.ts\<close>.

  Conventions. A JavaScript number is a \<^typ>\<open>rat\<close> where arithmetic is done on it and a
  \<^typ>\<open>nat\<close> where it is a count; \<^verbatim>\<open>NaN\<close> and the infinities are not modelled. A value that
  may be \<^verbatim>\<open>undefined\<close> is an \<^typ>\<open>'a option\<close>. A rejected promise or a thrown
  \<^verbatim>\<open>Error\<close> is the left injection of a sum, carrying the error's message.
\<close>

section \<open>db.ts: the code table\<close>

subsection \<open>The LanceDB collaborator\<close>

text \<open>
  A stored row of the code table, with the columns \<^verbatim>\<open>createTable\<close> writes that
  \<^verbatim>\<open>search\<close> and \<^verbatim>\<open>getStats\<close> read, and its embedding vector.
\<close>

record code_row =
  row_id :: string
  row_className :: string
  row_packageName :: string
  row_methodName :: string
  row_methodSignature :: string
  row_content :: string
  row_filePath :: string
  row_lineStart :: int
  row_lineEnd :: int
  row_vector :: "rat list"

text \<open>
  A row as a vector query returns it: the stored columns and the column \<^verbatim>\<open>_distance\<close>,
  which may be missing.
\<close>

record hit_row = code_row +
  row_distance :: "rat option"

text \<open>
  The database behind \<^verbatim>\<open>lancedb.connect(dbPath)\<close>: its named tables, each a finite
  sequence of rows, the distance metric of its vector index, and the meaning of an SQL
  filter string. The engine is an external library; the three operations below state what
  the sources rely on: \<^verbatim>\<open>openTable\<close> fails on a missing table, a vector query returns
  the nearest rows first, each with its distance, and at most \<^verbatim>\<open>limit\<close> of them, and a
  plain query returns the rows from \<^verbatim>\<open>offset\<close> on, at most \<^verbatim>\<open>limit\<close> of them.
\<close>

record database =
  db_tables :: "string \<rightharpoonup> code_row list"
  db_metric :: "rat list \<Rightarrow> rat list \<Rightarrow> rat"
  db_where :: "string \<Rightarrow> code_row \<Rightarrow> bool"

definition openTable :: "database \<Rightarrow> string \<Rightarrow> string + code_row list" where
  "openTable db tableName =
     (case db_tables db tableName of
        None \<Rightarrow> Inl (''Table '' @ tableName @ '' was not found'')
      | Some t \<Rightarrow> Inr t)"

definition with_distance :: "database \<Rightarrow> rat list \<Rightarrow> code_row \<Rightarrow> hit_row" where
  "with_distance db queryVector r =
     code_row.extend r
       (hit_row.fields (Some (db_metric db queryVector (row_vector r))))"

definition the_distance :: "hit_row \<Rightarrow> rat" where
  "the_distance r = (case row_distance r of None \<Rightarrow> 0 | Some d \<Rightarrow> d)"

definition vectorSearch ::
  "database \<Rightarrow> code_row list \<Rightarrow> rat list \<Rightarrow> nat \<Rightarrow> string option \<Rightarrow> hit_row list" where
  "vectorSearch db t queryVector limit flt =
     take limit
       (sort_key the_distance
          (map (with_distance db queryVector)
             (case flt of None \<Rightarrow> t | Some f \<Rightarrow> filter (db_where db f) t)))"

definition query_page :: "code_row list \<Rightarrow> nat \<Rightarrow> nat \<Rightarrow> code_row list" where
  "query_page t limit offset = take limit (drop offset t)"

definition countRows :: "code_row list \<Rightarrow> nat" where
  "countRows t = length t"

text \<open>The squared Euclidean distance, the default metric of the engine.\<close>

definition l2 :: "rat list \<Rightarrow> rat list \<Rightarrow> rat" where
  "l2 u v = sum_list (map (\<lambda>(x, y). (x - y) * (x - y)) (zip u v))"

subsection \<open>search\<close>

record SearchResult =
  sr_id :: string
  sr_className :: string
  sr_packageName :: string
  sr_methodName :: string
  sr_methodSignature :: string
  sr_content :: string
  sr_filePath :: string
  sr_lineStart :: int
  sr_lineEnd :: int
  sr_score :: rat

text \<open>
  \<^verbatim>\<open>row._distance || 0\<close>: the distance, or 0 when it is missing or falsy. The only
  falsy number modelled is 0.
\<close>

definition distance_or_0 :: "rat option \<Rightarrow> rat" where
  "distance_or_0 d = (case d of None \<Rightarrow> 0 | Some x \<Rightarrow> if x = 0 then 0 else x)"

definition to_result :: "hit_row \<Rightarrow> SearchResult" where
  "to_result row =
     \<lparr> sr_id = row_id row,
       sr_className = row_className row,
       sr_packageName = row_packageName row,
       sr_methodName = row_methodName row,
       sr_methodSignature = row_methodSignature row,
       sr_content = row_content row,
       sr_filePath = row_filePath row,
       sr_lineStart = row_lineStart row,
       sr_lineEnd = row_lineEnd row,
       sr_score = 1 - distance_or_0 (row_distance row) \<rparr>"

text \<open>
  \<^verbatim>\<open>if (filter)\<close>: an empty filter string is falsy and adds no \<^verbatim>\<open>where\<close> clause.
\<close>

definition truthy_filter :: "string option \<Rightarrow> string option" where
  "truthy_filter flt = (case flt of None \<Rightarrow> None | Some f \<Rightarrow> if f = [] then None else Some f)"

text \<open>
  \<^verbatim>\<open>search(dbPath, queryVector, limit = 5, filter?, tableName = "hytale_methods")\<close>.
  The database is the one \<^verbatim>\<open>dbPath\<close> connects to; an omitted argument is \<open>None\<close>.
\<close>

definition search_hits ::
  "database \<Rightarrow> rat list \<Rightarrow> nat option \<Rightarrow> string option \<Rightarrow> string option \<Rightarrow> string + hit_row list" where
  "search_hits db queryVector limit flt tableName =
     (case openTable db (case tableName of None \<Rightarrow> ''hytale_methods'' | Some n \<Rightarrow> n) of
        Inl e \<Rightarrow> Inl e
      | Inr table \<Rightarrow>
          Inr (vectorSearch db table queryVector
                 (case limit of None \<Rightarrow> 5 | Some n \<Rightarrow> n) (truthy_filter flt)))"

definition search ::
  "database \<Rightarrow> rat list \<Rightarrow> nat option \<Rightarrow> string option \<Rightarrow> string option
     \<Rightarrow> string + SearchResult list" where
  "search db queryVector limit flt tableName =
     (case search_hits db queryVector limit flt tableName of
        Inl e \<Rightarrow> Inl e
      | Inr results \<Rightarrow> Inr (map to_result results))"

subsection \<open>getStats\<close>

record DbStats =
  totalMethods :: nat
  uniqueClasses :: nat
  uniquePackages :: nat

text \<open>
  The body of the inner \<^verbatim>\<open>for\<close> loop: a truthy (non-empty) class or package name is
  added to its set.
\<close>

definition add_names :: "string set \<times> string set \<Rightarrow> code_row \<Rightarrow> string set \<times> string set" where
  "add_names acc row =
     (let classNames = fst acc; packageNames = snd acc;
          classNames' = (if row_className row \<noteq> [] then insert (row_className row) classNames
                         else classNames);
          packageNames' = (if row_packageName row \<noteq> [] then insert (row_packageName row) packageNames
                           else packageNames)
      in (classNames', packageNames'))"

text \<open>
  The \<^verbatim>\<open>while (true)\<close> loop of \<^verbatim>\<open>getStats\<close>. Its state is the offset and the two
  sets; the model also records, for each page it requests, the offset of the request and
  the number of rows that came back.
\<close>

function scan ::
  "code_row list \<Rightarrow> nat \<Rightarrow> nat \<Rightarrow> string set \<times> string set \<Rightarrow> (nat \<times> nat) list
     \<Rightarrow> (nat \<times> nat) list \<times> string set \<times> string set" where
  "scan table batchSize offset acc pages =
     (let batch = query_page table batchSize offset;
          pages' = pages @ [(offset, length batch)]
      in if length batch = 0 then (pages', acc)
         else if length batch < batchSize then (pages', foldl add_names acc batch)
         else scan table batchSize (offset + length batch) (foldl add_names acc batch) pages')"
  by pat_completeness auto
termination
  by (relation "measure (\<lambda>(table, batchSize, offset, acc, pages). length table - offset)")
     (auto simp: query_page_def)

declare scan.simps [simp del]

definition getStats :: "database \<Rightarrow> string option \<Rightarrow> string + DbStats" where
  "getStats db tableName =
     (case openTable db (case tableName of None \<Rightarrow> ''hytale_methods'' | Some n \<Rightarrow> n) of
        Inl e \<Rightarrow> Inl e
      | Inr table \<Rightarrow>
          (let rowCount = countRows table;
               (pages, classNames, packageNames) = scan table 5000 0 ({}, {}) []
           in Inr \<lparr> totalMethods = rowCount,
                    uniqueClasses = card classNames,
                    uniquePackages = card packageNames \<rparr>))"

section \<open>core/schemas.ts: tool input schemas\<close>

subsection \<open>Raw inputs and the schema language\<close>

text \<open>
  A raw tool input is a JSON value. The keys of an object are distinct, as they are in a
  JavaScript object; a key that is absent reads as \<^verbatim>\<open>undefined\<close>.
\<close>

datatype json =
    JNull
  | JBool bool
  | JNum rat
  | JStr string
  | JArr "json list"
  | JObj "(string \<times> json) list"

text \<open>
  The part of the Zod schema language that \<^verbatim>\<open>schemas.ts\<close> uses: \<^verbatim>\<open>z.string()\<close> with
  \<^verbatim>\<open>.min(n)\<close>; \<^verbatim>\<open>z.number()\<close> with \<^verbatim>\<open>.int()\<close>, \<^verbatim>\<open>.min(a)\<close>, \<^verbatim>\<open>.max(b)\<close>;
  \<^verbatim>\<open>z.enum(values)\<close>; and on each of them \<^verbatim>\<open>.optional()\<close> and \<^verbatim>\<open>.default(v)\<close>.
  Zod is an external library. Its validator is written out below as far as these schemas
  need it: a check that fails adds an issue and validation goes on with the next check and
  the next field; an object schema drops the keys it does not declare; a default replaces
  an absent value and is then validated like a supplied one.
\<close>

datatype zod_type =
    ZString "nat option"
  | ZNumber bool "rat option" "rat option"
  | ZEnum "string list"

record zod_field =
  z_type :: zod_type
  z_optional :: bool
  z_default :: "json option"

type_synonym zod_object = "(string \<times> zod_field) list"

text \<open>
  The issue codes of Zod: \<^verbatim>\<open>invalid_type\<close> (split here into a missing required value,
  a value of the wrong type and a number that is not an integer), \<^verbatim>\<open>too_small\<close>,
  \<^verbatim>\<open>too_big\<close> and \<^verbatim>\<open>invalid_enum_value\<close>. An issue carries the name of the field
  it is about (empty for the input as a whole).
\<close>

datatype issue_code = Required | InvalidType | NotInteger | TooSmall | TooBig | InvalidEnumValue

datatype issue = Issue string issue_code

definition is_integer :: "rat \<Rightarrow> bool" where
  "is_integer x = (of_int \<lfloor>x\<rfloor> = x)"

fun parse_type :: "zod_type \<Rightarrow> json \<Rightarrow> issue_code list + json" where
  "parse_type (ZString minLength) (JStr s) =
     (if (case minLength of None \<Rightarrow> False | Some n \<Rightarrow> length s < n) then Inl [TooSmall]
      else Inr (JStr s))"
| "parse_type (ZNumber isInt lo hi) (JNum x) =
     (let issues =
            (if isInt \<and> \<not> is_integer x then [NotInteger] else []) @
            (if (case lo of None \<Rightarrow> False | Some a \<Rightarrow> x < a) then [TooSmall] else []) @
            (if (case hi of None \<Rightarrow> False | Some b \<Rightarrow> b < x) then [TooBig] else [])
      in if issues = [] then Inr (JNum x) else Inl issues)"
| "parse_type (ZEnum values) (JStr s) =
     (if s \<in> set values then Inr (JStr s) else Inl [InvalidEnumValue])"
| "parse_type _ _ = Inl [InvalidType]"

definition parse_field :: "zod_field \<Rightarrow> json option \<Rightarrow> issue_code list + json option" where
  "parse_field f v =
     (case (case v of None \<Rightarrow> z_default f | Some x \<Rightarrow> Some x) of
        None \<Rightarrow> if z_optional f then Inr None else Inl [Required]
      | Some x \<Rightarrow> (case parse_type (z_type f) x of Inl cs \<Rightarrow> Inl cs | Inr y \<Rightarrow> Inr (Some y)))"

text \<open>
  The fields of an object are validated in the order of their declaration; the result is
  the issues of all fields, and the validated values of the fields that have one.
\<close>

fun parse_fields ::
  "zod_object \<Rightarrow> (string \<times> json) list \<Rightarrow> issue list \<times> (string \<times> json) list" where
  "parse_fields [] kvs = ([], [])"
| "parse_fields ((k, f) # fs) kvs =
     (let (issues, out) = parse_fields fs kvs
      in case parse_field f (map_of kvs k) of
           Inl cs \<Rightarrow> (map (Issue k) cs @ issues, out)
         | Inr None \<Rightarrow> (issues, out)
         | Inr (Some y) \<Rightarrow> (issues, (k, y) # out))"

text \<open>\<^verbatim>\<open>schema.safeParse(rawInput)\<close>: the issues, or the validated object.\<close>

definition safeParse :: "zod_object \<Rightarrow> json \<Rightarrow> issue list + (string \<times> json) list" where
  "safeParse schema raw =
     (case raw of
        JObj kvs \<Rightarrow>
          (let (issues, out) = parse_fields schema kvs
           in if issues = [] then Inr out else Inl issues)
      | _ \<Rightarrow> Inl [Issue [] InvalidType])"

subsection \<open>The schemas\<close>

definition query_field :: zod_field where
  "query_field = \<lparr> z_type = ZString (Some 1), z_optional = False, z_default = None \<rparr>"

definition limit_field :: zod_field where
  "limit_field =
     \<lparr> z_type = ZNumber True (Some 1) (Some 20), z_optional = True, z_default = Some (JNum 5) \<rparr>"

definition classFilter_field :: zod_field where
  "classFilter_field = \<lparr> z_type = ZString None, z_optional = True, z_default = None \<rparr>"

definition DOCS_TYPES :: "string list" where
  "DOCS_TYPES = [''all'', ''guide'', ''reference'', ''faq'', ''example'']"

definition searchCodeSchema :: zod_object where
  "searchCodeSchema =
     [(''query'', query_field), (''limit'', limit_field), (''classFilter'', classFilter_field)]"

definition searchDocsSchema :: zod_object where
  "searchDocsSchema =
     [(''query'', query_field),
      (''type'', \<lparr> z_type = ZEnum DOCS_TYPES, z_optional = True, z_default = Some (JStr ''all'') \<rparr>),
      (''limit'', limit_field)]"

definition emptySchema :: zod_object where
  "emptySchema = []"

section \<open>core/tools: results, context and collaborators\<close>

text \<open>\<^verbatim>\<open>ToolResult<T>\<close>: \<^verbatim>\<open>{success: true, data}\<close> or \<^verbatim>\<open>{success: false, error}\<close>.\<close>

datatype 'd ToolResult = Success 'd | Failure string

text \<open>A record of the documentation table, as the tools read it.\<close>

record docs_row =
  d_id :: string
  d_type :: string
  d_title :: string
  d_filePath :: string
  d_relativePath :: string
  d_content :: string
  d_category :: "string option"
  d_description :: "string option"

text \<open>An element of what \<^verbatim>\<open>vectorStore.search\<close> returns: \<^verbatim>\<open>{data, score}\<close>.\<close>

record SearchHit =
  hit_data :: docs_row
  hit_score :: rat

record DocsSearchResult = docs_row +
  score :: rat

record DocsStats =
  totalDocs :: nat
  byCategory :: "string \<rightharpoonup> nat"
  byType :: "string \<rightharpoonup> nat"

text \<open>
  The two provider interfaces, as far as the tools call them. Every operation is
  asynchronous and may reject: the left injection is the message of the error. The
  filter of a search is the documentation type to match, if any. \<^verbatim>\<open>queryAll\<close> is an
  asynchronous generator of batches; it is modelled by the finite sequence of batches it
  yields, or by the error it throws.
\<close>

record EmbeddingProvider =
  embedQuery :: "string \<Rightarrow> string \<Rightarrow> string + rat list"

record VectorStore =
  vs_tableExists :: "string \<Rightarrow> string + bool"
  vs_getStats :: "string \<Rightarrow> string + nat"
  vs_queryAll :: "string \<Rightarrow> string + docs_row list list"
  vs_search :: "string \<Rightarrow> rat list \<Rightarrow> rat \<Rightarrow> string option \<Rightarrow> string + SearchHit list"

text \<open>The configuration, as far as \<^verbatim>\<open>index.ts\<close> and the tools read it.\<close>

record Config =
  embedding_provider :: string
  embedding_apiKey :: "string option"
  server_mode :: string
  server_host :: string
  server_port :: nat
  tables_docs :: string

record ToolContext =
  embedding :: "EmbeddingProvider option"
  vectorStore :: VectorStore
  config :: Config
  configError :: "string option"

text \<open>
  The calls a handler makes to the providers, in order. A handler returns this log
  together with its result; the result is a \<^typ>\<open>'d ToolResult\<close>, or the message of
  the error the handler throws.
\<close>

datatype call =
    EmbedQuery string string
  | Search string "rat list" rat "string option"
  | TableExists string
  | GetStats string
  | QueryAll string

type_synonym 'd outcome = "call list \<times> (string + 'd ToolResult)"

text \<open>
  Truthiness of a string that may be \<^verbatim>\<open>undefined\<close>, and \<^verbatim>\<open>a || b\<close> on such a string.
\<close>

definition truthy :: "string option \<Rightarrow> bool" where
  "truthy s = (case s of None \<Rightarrow> False | Some x \<Rightarrow> x \<noteq> [])"

definition or_else :: "string option \<Rightarrow> string \<Rightarrow> string" where
  "or_else s d = (case s of None \<Rightarrow> d | Some x \<Rightarrow> if x = [] then d else x)"

section \<open>core/tools/search-docs.ts\<close>

text \<open>
  \<^verbatim>\<open>SearchDocsInput\<close>. The handler guards against an absent \<^verbatim>\<open>limit\<close> and an absent
  \<^verbatim>\<open>type\<close>, so both are optional here.
\<close>

record SearchDocsInput =
  sd_query :: string
  sd_type :: "string option"
  sd_limit :: "rat option"

text \<open>\<^verbatim>\<open>Math.min(Math.max(1, input.limit ?? 5), 20)\<close>\<close>

definition clamp_limit :: "rat option \<Rightarrow> rat" where
  "clamp_limit l = min (max 1 (case l of None \<Rightarrow> 5 | Some x \<Rightarrow> x)) 20"

definition to_docs_result :: "SearchHit \<Rightarrow> DocsSearchResult" where
  "to_docs_result r =
     \<lparr> d_id = d_id (hit_data r),
       d_type = d_type (hit_data r),
       d_title = d_title (hit_data r),
       d_filePath = d_filePath (hit_data r),
       d_relativePath = d_relativePath (hit_data r),
       d_content = d_content (hit_data r),
       d_category = d_category (hit_data r),
       d_description = d_description (hit_data r),
       score = hit_score r \<rparr>"

text \<open>
  The handler. Its guard \<^verbatim>\<open>context.configError || !context.embedding\<close> lets it go on
  only when the configuration error is falsy and a provider is present. It has no
  \<^verbatim>\<open>try\<close> block: a rejection of \<^verbatim>\<open>embedQuery\<close> or of \<^verbatim>\<open>vectorStore.search\<close> is thrown
  to the caller.
\<close>

definition searchDocs_handler ::
  "SearchDocsInput \<Rightarrow> ToolContext \<Rightarrow> DocsSearchResult list outcome" where
  "searchDocs_handler input context =
     (case (if truthy (configError context) then None else embedding context) of
        None \<Rightarrow>
          ([], Inr (Failure (or_else (configError context) ''Embedding provider not configured'')))
      | Some provider \<Rightarrow>
          (let limit = clamp_limit (sd_limit input);
               call1 = EmbedQuery (sd_query input) ''text''
           in case embedQuery provider (sd_query input) ''text'' of
                Inl e \<Rightarrow> ([call1], Inl e)
              | Inr queryVector \<Rightarrow>
                  (let flt = (if truthy (sd_type input) \<and> sd_type input \<noteq> Some ''all''
                              then sd_type input else None);
                       call2 = Search (tables_docs (config context)) queryVector limit flt
                   in case vs_search (vectorStore context) (tables_docs (config context))
                             queryVector limit flt of
                        Inl e \<Rightarrow> ([call1, call2], Inl e)
                      | Inr results \<Rightarrow>
                          ([call1, call2], Inr (Success (map to_docs_result results))))))"

section \<open>core/tools/docs-stats.ts\<close>

text \<open>
  \<^verbatim>\<open>counts[key] = (counts[key] || 0) + 1\<close> on a \<^verbatim>\<open>Record<string, number>\<close>, as a map.
  A key that names a property every JavaScript object inherits (such as
  \<^verbatim>\<open>constructor\<close>) is not modelled.
\<close>

definition bump :: "(string \<rightharpoonup> nat) \<Rightarrow> string \<Rightarrow> (string \<rightharpoonup> nat)" where
  "bump counts key = counts(key \<mapsto> (case counts key of None \<Rightarrow> 0 | Some n \<Rightarrow> n) + 1)"

text \<open>The body of the inner loop over the rows of a batch.\<close>

definition count_row ::
  "(string \<rightharpoonup> nat) \<times> (string \<rightharpoonup> nat) \<Rightarrow> docs_row \<Rightarrow> (string \<rightharpoonup> nat) \<times> (string \<rightharpoonup> nat)" where
  "count_row acc row =
     (let category = or_else (d_category row) ''Other'';
          type = or_else (Some (d_type row)) ''unknown''
      in (bump (fst acc) category, bump (snd acc) type))"

definition table_not_found :: string where
  "table_not_found =
     ''Documentation table not found. Run '' @ [CHR 0x27] @ ''npm run ingest-docs'' @ [CHR 0x27]
       @ '' to index the documentation.''"

text \<open>
  The handler; it does not read its input. A truthy configuration error is returned as it
  is (\<open>or_else s []\<close> is the string \<open>s\<close> when \<open>s\<close> is truthy). Inside the \<^verbatim>\<open>try\<close>
  block every rejection of the store is caught and returned as a failure carrying the
  error's message, so the handler never throws.
\<close>

definition docsStats_handler :: "ToolContext \<Rightarrow> DocsStats outcome" where
  "docsStats_handler context =
     (if truthy (configError context)
      then ([], Inr (Failure (or_else (configError context) [])))
      else
        (let tableName = tables_docs (config context);
             store = vectorStore context
         in case vs_tableExists store tableName of
              Inl e \<Rightarrow> ([TableExists tableName], Inr (Failure e))
            | Inr exists \<Rightarrow>
                if \<not> exists then ([TableExists tableName], Inr (Failure table_not_found))
                else
                  (case vs_getStats store tableName of
                     Inl e \<Rightarrow> ([TableExists tableName, GetStats tableName], Inr (Failure e))
                   | Inr rowCount \<Rightarrow>
                       (case vs_queryAll store tableName of
                          Inl e \<Rightarrow>
                            ([TableExists tableName, GetStats tableName, QueryAll tableName],
                             Inr (Failure e))
                        | Inr batches \<Rightarrow>
                            (let (cats, types) =
                                   foldl (foldl count_row) (Map.empty, Map.empty) batches
                             in ([TableExists tableName, GetStats tableName, QueryAll tableName],
                                 Inr (Success \<lparr> totalDocs = rowCount,
                                                byCategory = cats,
                                                byType = types \<rparr>)))))))"

text \<open>
  An in-memory vector store over named tables of documentation records, for running the
  handlers on concrete tables. A table that is absent does not exist; statistics and
  scans of it fail; a scan of a table yields its rows in one batch; a search returns the
  first rows of the table, each with score 1, filtered by type.
\<close>

definition memory_store :: "(string \<rightharpoonup> docs_row list) \<Rightarrow> VectorStore" where
  "memory_store tables =
     \<lparr> vs_tableExists = (\<lambda>n. Inr (tables n \<noteq> None)),
       vs_getStats = (\<lambda>n. case tables n of
                             None \<Rightarrow> Inl (''Table '' @ n @ '' was not found'')
                           | Some rows \<Rightarrow> Inr (length rows)),
       vs_queryAll = (\<lambda>n. case tables n of
                             None \<Rightarrow> Inl (''Table '' @ n @ '' was not found'')
                           | Some rows \<Rightarrow> Inr (if rows = [] then [] else [rows])),
       vs_search = (\<lambda>n q limit flt. case tables n of
                             None \<Rightarrow> Inl (''Table '' @ n @ '' was not found'')
                           | Some rows \<Rightarrow>
                               Inr (map (\<lambda>r. \<lparr> hit_data = r, hit_score = 1 \<rparr>)
                                      (take (nat \<lfloor>limit\<rfloor>)
                                         (filter (\<lambda>r. case flt of None \<Rightarrow> True
                                                                  | Some t \<Rightarrow> d_type r = t)
                                            rows)))) \<rparr>"

section \<open>index.ts: the entry point\<close>

subsection \<open>Strings\<close>

text \<open>The line feed and the double quote.\<close>

definition NL :: string where
  "NL = [CHR 0x0A]"

definition DQ :: string where
  "DQ = [CHR 0x22]"

text \<open>
  \<^verbatim>\<open>content.split("\n")\<close>: the pieces between the line feeds; the empty string has one
  empty piece.
\<close>

fun split_lines :: "string \<Rightarrow> string list" where
  "split_lines [] = [[]]"
| "split_lines (c # cs) =
     (if c = CHR 0x0A then [] # split_lines cs
      else (case split_lines cs of [] \<Rightarrow> [[c]] | l # ls \<Rightarrow> (c # l) # ls))"

text \<open>
  \<^verbatim>\<open>l.trim()\<close>: without the white space at both ends. The white space of a one-byte
  character set is the space, the tabulators, the line and form feeds and the carriage
  return; the white space beyond ASCII is not modelled.
\<close>

definition is_space :: "char \<Rightarrow> bool" where
  "is_space c = (c \<in> {CHR '' '', CHR 0x09, CHR 0x0A, CHR 0x0B, CHR 0x0C, CHR 0x0D})"

definition trim :: "string \<Rightarrow> string" where
  "trim l = rev (dropWhile is_space (rev (dropWhile is_space l)))"

definition startsWith :: "string \<Rightarrow> string \<Rightarrow> bool" where
  "startsWith s p = (take (length p) s = p)"

text \<open>\<^verbatim>\<open>s.includes(sub)\<close>: the string contains the other as a contiguous part.\<close>

fun mentions :: "string \<Rightarrow> string \<Rightarrow> bool" where
  "mentions [] sub = (sub = [])"
| "mentions (c # cs) sub = (startsWith (c # cs) sub \<or> mentions cs sub)"

text \<open>The character class \<^verbatim>\<open>[A-Za-z0-9_-]\<close>.\<close>

definition key_char :: "char \<Rightarrow> bool" where
  "key_char c =
     ((CHR ''A'' \<le> c \<and> c \<le> CHR ''Z'') \<or> (CHR ''a'' \<le> c \<and> c \<le> CHR ''z'') \<or>
      (CHR ''0'' \<le> c \<and> c \<le> CHR ''9'') \<or> c = CHR ''_'' \<or> c = CHR ''-'')"

text \<open>
  \<^verbatim>\<open>line.match(/^pa-[A-Za-z0-9_-]+$/)\<close> and its \<^verbatim>\<open>sk-\<close> sibling, for a three-character
  prefix: the prefix, then one or more characters of the class, then the end.
\<close>

definition bare_key :: "string \<Rightarrow> string \<Rightarrow> bool" where
  "bare_key prefix line =
     (startsWith line prefix \<and> drop (length prefix) line \<noteq> [] \<and>
      list_all key_char (drop (length prefix) line))"

text \<open>\<^verbatim>\<open>toUpperCase()\<close> on ASCII letters; other characters are left as they are.\<close>

definition upper_char :: "char \<Rightarrow> char" where
  "upper_char c =
     (if CHR ''a'' \<le> c \<and> c \<le> CHR ''z'' then char_of (of_char c - (32::nat)) else c)"

definition toUpperCase :: "string \<Rightarrow> string" where
  "toUpperCase s = map upper_char s"

subsection \<open>checkEnvFile and validateApiKeyFormat\<close>

definition env_message :: "string \<Rightarrow> string \<Rightarrow> string \<Rightarrow> string" where
  "env_message vendor var line =
     ''.env file misconfigured: Found what looks like '' @ vendor
       @ '' API key without the variable name.'' @ NL @ NL
       @ ''Your .env file contains:'' @ NL @ ''  '' @ line @ NL @ NL
       @ ''It should be:'' @ NL @ ''  '' @ var @ ''='' @ line @ NL @ NL
       @ ''Please fix your .env file and restart Claude Code.''"

text \<open>The \<^verbatim>\<open>for\<close> loop over the lines: the first line that looks like a bare key decides.\<close>

fun check_lines :: "string list \<Rightarrow> string option" where
  "check_lines [] = None"
| "check_lines (line # lines) =
     (if bare_key ''pa-'' line then Some (env_message ''a Voyage'' ''VOYAGE_API_KEY'' line)
      else if bare_key ''sk-'' line then Some (env_message ''an OpenAI'' ''OPENAI_API_KEY'' line)
      else check_lines lines)"

text \<open>
  \<^verbatim>\<open>checkEnvFile()\<close>. Its argument is the content of the \<^verbatim>\<open>.env\<close> file of the working
  directory, or \<open>None\<close> when there is no such file or it cannot be read.
\<close>

definition checkEnvFile :: "string option \<Rightarrow> string option" where
  "checkEnvFile env_file =
     (case env_file of
        None \<Rightarrow> None
      | Some content \<Rightarrow>
          check_lines
            (filter (\<lambda>l. l \<noteq> [] \<and> \<not> startsWith l ''#'') (map trim (split_lines content))))"

definition validateApiKeyFormat :: "string \<Rightarrow> string \<Rightarrow> string option" where
  "validateApiKeyFormat provider apiKey =
     (if provider = ''voyage'' then
        (if \<not> startsWith apiKey ''pa-'' then
           Some (''Invalid Voyage API key format. Voyage API keys should start with ''
                 @ DQ @ ''pa-'' @ DQ @ ''.'' @ NL @ NL
                 @ ''Your key starts with: '' @ DQ @ take 3 apiKey @ ''...'' @ DQ @ NL @ NL
                 @ ''Get a valid API key at https://www.voyageai.com/ and update your .env file.'')
         else None)
      else if provider = ''openai'' then
        (if \<not> startsWith apiKey ''sk-'' then
           Some (''Invalid OpenAI API key format. OpenAI API keys should start with ''
                 @ DQ @ ''sk-'' @ DQ @ ''.'' @ NL @ NL
                 @ ''Your key starts with: '' @ DQ @ take 3 apiKey @ ''...'' @ DQ @ NL @ NL
                 @ ''Check your API key and update your .env file.'')
         else None)
      else None)"

subsection \<open>main\<close>

text \<open>
  What \<^verbatim>\<open>main\<close> finds around it: the \<^verbatim>\<open>.env\<close> file, the two provider factories, and
  whether \<^verbatim>\<open>vectorStore.connect()\<close> rejects (with which message).
\<close>

record Env =
  env_file :: "string option"
  createEmbeddingProvider :: "Config \<Rightarrow> EmbeddingProvider"
  createVectorStore :: "Config \<Rightarrow> VectorStore"
  connect_error :: "string option"

text \<open>
  The first part of \<^verbatim>\<open>main\<close>: the configuration error, if any. Where a string is
  known to be truthy, \<open>or_else s []\<close> is that string.
\<close>

definition api_key_missing :: "string \<Rightarrow> string" where
  "api_key_missing envVar =
     ''API key not configured. Get a free Voyage API key at https://www.voyageai.com/ ''
       @ ''and add it to your .env file:'' @ NL @ NL @ envVar @ ''=your-key-here'' @ NL @ NL
       @ ''Then restart Claude Code.''"

definition envVar :: "Config \<Rightarrow> string" where
  "envVar cfg =
     (if embedding_provider cfg = ''voyage'' then ''VOYAGE_API_KEY''
      else if embedding_provider cfg = ''openai'' then ''OPENAI_API_KEY''
      else toUpperCase (embedding_provider cfg) @ ''_API_KEY'')"

definition config_error :: "Env \<Rightarrow> Config \<Rightarrow> string option" where
  "config_error env cfg =
     (let envFileError = checkEnvFile (env_file env)
      in if truthy envFileError then envFileError
         else if \<not> truthy (embedding_apiKey cfg) then Some (api_key_missing (envVar cfg))
         else
           (let formatError =
                  validateApiKeyFormat (embedding_provider cfg) (or_else (embedding_apiKey cfg) [])
            in if truthy formatError then formatError else None))"

text \<open>
  How \<^verbatim>\<open>main\<close> ends: the process exits with a code after writing a line to the error
  stream, or the servers of the mode are started on a tool context. The tool registry
  that \<^verbatim>\<open>main\<close> fills is passed to the servers beside the context; its six tools come
  from modules outside these sources and it is left out of the outcome.
\<close>

datatype server = MCP | REST nat | OpenAI nat

datatype main_outcome = Exited nat string | Started "server list" ToolContext

definition servers_of :: "Config \<Rightarrow> server list" where
  "servers_of cfg =
     (if server_mode cfg = ''mcp'' then [MCP]
      else if server_mode cfg = ''rest'' then [REST (server_port cfg)]
      else if server_mode cfg = ''openai'' then [OpenAI (server_port cfg)]
      else if server_mode cfg = ''all'' then [REST (server_port cfg), OpenAI (server_port cfg + 1)]
      else [])"

definition main :: "Env \<Rightarrow> Config \<Rightarrow> main_outcome" where
  "main env cfg =
     (let configError = config_error env cfg
      in if truthy configError \<and> server_mode cfg \<noteq> ''mcp''
         then Exited 1 (''Error: '' @ or_else configError [])
         else
           (let embedding =
                  (if \<not> truthy configError \<and> truthy (embedding_apiKey cfg)
                   then Some (createEmbeddingProvider env cfg) else None);
                vectorStore = createVectorStore env cfg
            in case connect_error env of
                 Some e \<Rightarrow> Exited 1 (''Fatal error: '' @ e)
               | None \<Rightarrow>
                   Started (servers_of cfg)
                     \<lparr> embedding = embedding, vectorStore = vectorStore,
                       config = cfg, configError = configError \<rparr>))"

section \<open>The tool definitions and the registry\<close>

text \<open>
  \<^verbatim>\<open>ToolDefinition\<close>: a name, a description, an input schema and a handler. In a
  registry the handlers share one type: the input is the validated object and the data
  of the result is tagged with its kind.
\<close>

record 'd ToolDefinition =
  tool_name :: string
  tool_description :: string
  inputSchema :: zod_object
  handler :: "(string \<times> json) list \<Rightarrow> ToolContext \<Rightarrow> 'd outcome"

datatype tool_data = DocsResults "DocsSearchResult list" | Stats DocsStats

text \<open>The validated object of \<^verbatim>\<open>searchDocsSchema\<close>, read as a \<^verbatim>\<open>SearchDocsInput\<close>.\<close>

definition as_SearchDocsInput :: "(string \<times> json) list \<Rightarrow> SearchDocsInput" where
  "as_SearchDocsInput input =
     \<lparr> sd_query = (case map_of input ''query'' of Some (JStr q) \<Rightarrow> q | _ \<Rightarrow> []),
       sd_type = (case map_of input ''type'' of Some (JStr t) \<Rightarrow> Some t | _ \<Rightarrow> None),
       sd_limit = (case map_of input ''limit'' of Some (JNum l) \<Rightarrow> Some l | _ \<Rightarrow> None) \<rparr>"

definition tag :: "('a \<Rightarrow> 'd) \<Rightarrow> 'a outcome \<Rightarrow> 'd outcome" where
  "tag f out = (fst out, map_sum id (map_ToolResult f) (snd out))"

definition searchDocsTool :: "tool_data ToolDefinition" where
  "searchDocsTool =
     \<lparr> tool_name = ''search_hytale_docs'',
       tool_description =
         ''Search HytaleModding.dev documentation using semantic search. ''
         @ ''Use this to find modding guides, tutorials, and reference documentation. ''
         @ ''Covers topics like plugin development, ECS, block creation, commands, events, and more.'',
       inputSchema = searchDocsSchema,
       handler = (\<lambda>input context.
                    tag DocsResults (searchDocs_handler (as_SearchDocsInput input) context)) \<rparr>"

definition docsStatsTool :: "tool_data ToolDefinition" where
  "docsStatsTool =
     \<lparr> tool_name = ''hytale_docs_stats'',
       tool_description =
         ''Get statistics about the indexed HytaleModding.dev documentation. ''
         @ ''Shows total documents and breakdown by category and type.'',
       inputSchema = emptySchema,
       handler = (\<lambda>input context. tag Stats (docsStats_handler context)) \<rparr>"

text \<open>
  Modelled from the spec: the class \<^verbatim>\<open>ToolRegistry\<close> of \<^verbatim>\<open>core/tools/index.ts\<close>, which
  is not among the sources. The registry holds the definitions in registration order.
  \<^verbatim>\<open>register\<close> fails with \<^verbatim>\<open>DuplicateToolError\<close> if the name is already present, and
  then leaves the registry as it was. \<^verbatim>\<open>invoke\<close> looks the tool up and fails with
  \<^verbatim>\<open>UnknownTool\<close> if it is absent; validates the raw input against the schema and returns
  a failure with a field-level message when validation fails; otherwise calls the handler
  on the validated input and returns its result, a handler that throws giving a failure
  with the message of its error. How the issues of a failed validation are rendered into
  the message is a parameter.
\<close>

datatype registry_error = DuplicateToolError string | UnknownTool string

type_synonym 'd registry = "'d ToolDefinition list"

definition get_tool :: "'d registry \<Rightarrow> string \<Rightarrow> 'd ToolDefinition option" where
  "get_tool reg n = find (\<lambda>d. tool_name d = n) reg"

definition list_tools :: "'d registry \<Rightarrow> 'd ToolDefinition list" where
  "list_tools reg = reg"

definition register :: "'d ToolDefinition \<Rightarrow> 'd registry \<Rightarrow> registry_error option \<times> 'd registry" where
  "register d reg =
     (if get_tool reg (tool_name d) \<noteq> None then (Some (DuplicateToolError (tool_name d)), reg)
      else (None, reg @ [d]))"

definition invoke ::
  "(issue list \<Rightarrow> string) \<Rightarrow> 'd registry \<Rightarrow> string \<Rightarrow> json \<Rightarrow> ToolContext
     \<Rightarrow> registry_error + call list \<times> 'd ToolResult" where
  "invoke render reg n rawInput context =
     (case get_tool reg n of
        None \<Rightarrow> Inl (UnknownTool n)
      | Some d \<Rightarrow>
          (case safeParse (inputSchema d) rawInput of
             Inl issues \<Rightarrow> Inr ([], Failure (render issues))
           | Inr validatedInput \<Rightarrow>
               (case handler d validatedInput context of
                  (calls, Inl message) \<Rightarrow> Inr (calls, Failure message)
                | (calls, Inr result) \<Rightarrow> Inr (calls, result))))"

text \<open>The registry of the two documentation tools, registered in this order.\<close>

definition docs_registry :: "tool_data registry" where
  "docs_registry = snd (register docsStatsTool (snd (register searchDocsTool [])))"

section \<open>embedder.ts\<close>

text \<open>The fields of a \<^verbatim>\<open>MethodChunk\<close> that the embedder reads, and its identifier.\<close>

record MethodChunk =
  chunk_id :: string
  chunk_packageName :: string
  chunk_className :: string
  chunk_methodName :: string
  chunk_methodSignature :: string
  chunk_content :: string

text \<open>
  \<^verbatim>\<open>EmbeddedChunk\<close>: the chunk and its vector. The vector is \<^verbatim>\<open>result.vectors[i]\<close>,
  which is \<^verbatim>\<open>undefined\<close> when the provider returned fewer vectors than texts.
\<close>

record EmbeddedChunk = MethodChunk +
  vector :: "rat list option"

definition buildMethodEmbeddingText :: "MethodChunk \<Rightarrow> string" where
  "buildMethodEmbeddingText chunk =
     ''// Package: '' @ chunk_packageName chunk @ NL
       @ ''// Class: '' @ chunk_className chunk @ NL
       @ ''// Method: '' @ chunk_methodName chunk @ NL
       @ NL
       @ chunk_methodSignature chunk @ NL
       @ NL
       @ chunk_content chunk"

text \<open>
  Modelled from the spec: \<^verbatim>\<open>VoyageEmbeddingProvider.embedBatch\<close> of
  \<^verbatim>\<open>providers/embedding/voyage.ts\<close>, which is not among the sources. The texts are split
  into batches of \<^verbatim>\<open>batchSize\<close>, the provider is called once per batch, in order, and the
  results of the batches are concatenated in call order; a call that fails fails the whole
  operation and nothing of the earlier batches is returned. The delay between two calls
  and the progress callback do not change the vectors and are left out. The call of the
  provider's API on one batch is a parameter. With a batch size of 0 no text is ever
  consumed and the operation does not return.
\<close>

partial_function (option) embed_batches ::
  "(string list \<Rightarrow> string + rat list list) \<Rightarrow> nat \<Rightarrow> string list \<Rightarrow> rat list list
     \<Rightarrow> (string + rat list list) option" where
  "embed_batches api batchSize texts vectors =
     (if texts = [] then Some (Inr vectors)
      else (case api (take batchSize texts) of
              Inl e \<Rightarrow> Some (Inl e)
            | Inr vs \<Rightarrow> embed_batches api batchSize (drop batchSize texts) (vectors @ vs)))"

definition embedBatch ::
  "(string list \<Rightarrow> string + rat list list) \<Rightarrow> nat \<Rightarrow> string list
     \<Rightarrow> (string + rat list list) option" where
  "embedBatch api batchSize texts = embed_batches api batchSize texts []"

definition nth_opt :: "'a list \<Rightarrow> nat \<Rightarrow> 'a option" where
  "nth_opt xs i = (if i < length xs then Some (xs ! i) else None)"

text \<open>
  \<^verbatim>\<open>embedChunks(chunks, apiKey, onProgress)\<close>, on the provider's API for that key. The
  result is \<open>None\<close> when \<^verbatim>\<open>embedBatch\<close> does not return.
\<close>

definition embedChunks ::
  "(string \<Rightarrow> string list \<Rightarrow> string + rat list list) \<Rightarrow> MethodChunk list \<Rightarrow> string
     \<Rightarrow> (string + EmbeddedChunk list) option" where
  "embedChunks voyage chunks apiKey =
     (let texts = map buildMethodEmbeddingText chunks
      in case embedBatch (voyage apiKey) 128 texts of
           None \<Rightarrow> None
         | Some (Inl e) \<Rightarrow> Some (Inl e)
         | Some (Inr vectors) \<Rightarrow>
             Some (Inr (map (\<lambda>(chunk, i). MethodChunk.extend chunk
                                             (EmbeddedChunk.fields (nth_opt vectors i)))
                          (zip chunks [0 ..< length chunks]))))"

section \<open>Example data\<close>

text \<open>
  Two rows of the code table. Their vectors have length 1 and are at the squared
  distances 4 and 4/5 from the unit vector \<open>(1, 0)\<close>.
\<close>

definition far_row :: code_row where
  "far_row =
     \<lparr> row_id = ''com.hypixel.Inventory.add'',
       row_className = ''Inventory'',
       row_packageName = ''com.hypixel'',
       row_methodName = ''add'',
       row_methodSignature = ''void add(Item item)'',
       row_content = ''{ items.add(item); }'',
       row_filePath = ''com/hypixel/Inventory.java'',
       row_lineStart = 10,
       row_lineEnd = 12,
       row_vector = [- 1, 0] \<rparr>"

definition near_row :: code_row where
  "near_row =
     far_row \<lparr> row_id := ''com.hypixel.Inventory.remove'', row_methodName := ''remove'',
               row_vector := [3 / 5, 4 / 5] \<rparr>"

definition example_db :: database where
  "example_db =
     \<lparr> db_tables = [''hytale_methods'' \<mapsto> [far_row, near_row]],
       db_metric = l2,
       db_where = (\<lambda>f r. row_className r = f) \<rparr>"

text \<open>A record of the documentation table: a guide of the category \<^verbatim>\<open>plugin\<close>.\<close>

definition guide_row :: docs_row where
  "guide_row =
     \<lparr> d_id = ''guide:plugin/creating-block'',
       d_type = ''guide'',
       d_title = ''Creating a block'',
       d_filePath = ''content/docs/en/plugin/creating-block.mdx'',
       d_relativePath = ''plugin/creating-block.mdx'',
       d_content = ''# Creating a block'',
       d_category = Some ''plugin'',
       d_description = None \<rparr>"

text \<open>
  A configuration for the MCP mode with a well-formed Voyage key, and the same without a
  key.
\<close>

definition example_config :: Config where
  "example_config =
     \<lparr> embedding_provider = ''voyage'', embedding_apiKey = Some ''pa-0123456789'',
       server_mode = ''mcp'', server_host = ''localhost'', server_port = 3000,
       tables_docs = ''hytale_docs'' \<rparr>"

definition no_key_config :: Config where
  "no_key_config = example_config \<lparr> embedding_apiKey := None \<rparr>"

text \<open>
  An embedding provider that answers every query with the origin, and one whose every call
  is rejected.
\<close>

definition example_provider :: EmbeddingProvider where
  "example_provider = \<lparr> embedQuery = (\<lambda>text purpose. Inr [0, 0]) \<rparr>"

definition failing_provider :: EmbeddingProvider where
  "failing_provider =
     \<lparr> embedQuery = (\<lambda>text purpose. Inl ''Voyage API error: 401 Unauthorized'') \<rparr>"

text \<open>
  Two environments without an \<^verbatim>\<open>.env\<close> file, in which the store connects: one whose
  documentation table holds the guide, one whose store has no table.
\<close>

definition example_env :: Env where
  "example_env =
     \<lparr> env_file = None,
       createEmbeddingProvider = (\<lambda>cfg. example_provider),
       createVectorStore = (\<lambda>cfg. memory_store [''hytale_docs'' \<mapsto> [guide_row]]),
       connect_error = None \<rparr>"

definition unseeded_env :: Env where
  "unseeded_env = example_env \<lparr> createVectorStore := (\<lambda>cfg. memory_store Map.empty) \<rparr>"

text \<open>
  The tool contexts \<^verbatim>\<open>main\<close> builds from them: with the key, on the seeded store;
  without the key, on the store without tables.
\<close>

definition seeded_context :: ToolContext where
  "seeded_context =
     \<lparr> embedding = Some example_provider,
       vectorStore = memory_store [''hytale_docs'' \<mapsto> [guide_row]],
       config = example_config,
       configError = None \<rparr>"

definition no_key_context :: ToolContext where
  "no_key_context =
     \<lparr> embedding = None,
       vectorStore = memory_store Map.empty,
       config = no_key_config,
       configError = Some (api_key_missing ''VOYAGE_API_KEY'') \<rparr>"

text \<open>A rendering of validation issues into a message, one clause per issue.\<close>

definition render_issues :: "issue list \<Rightarrow> string" where
  "render_issues issues =
     concat (map (\<lambda>i. case i of Issue path code \<Rightarrow>
        path @ '': '' @
        (case code of Required \<Rightarrow> ''Required'' | InvalidType \<Rightarrow> ''Invalid type''
           | NotInteger \<Rightarrow> ''Expected integer'' | TooSmall \<Rightarrow> ''Too small''
           | TooBig \<Rightarrow> ''Too big'' | InvalidEnumValue \<Rightarrow> ''Invalid enum value'') @ ''; '') issues)"

text \<open>An embedding that only looks at the length of the text.\<close>

definition length_embedding :: "string \<Rightarrow> rat list" where
  "length_embedding text = [of_nat (length text)]"

chapter \<open>Properties\<close>

section \<open>Code-table search\<close>

lemma score_of_hit:
  "row_distance r = Some d \<Longrightarrow> sr_score (to_result r) = 1 - d"
  by (simp add: to_result_def distance_or_0_def)

lemma score_the_distance: "sr_score (to_result r) = 1 - the_distance r"
  by (simp add: to_result_def distance_or_0_def the_distance_def split: option.splits)

lemma vectorSearch_length: "length (vectorSearch db t q n f) \<le> n"
  by (simp add: vectorSearch_def)

lemma vectorSearch_distance:
  "r \<in> set (vectorSearch db t q n f) \<Longrightarrow> \<exists>d. row_distance r = Some d"
  by (auto simp: vectorSearch_def with_distance_def code_row.extend_def hit_row.fields_def
           dest!: in_set_takeD split: option.splits)

lemma vectorSearch_sorted: "sorted (map the_distance (vectorSearch db t q n f))"
  unfolding vectorSearch_def
  by (simp add: take_map[symmetric] sorted_wrt_take)

lemma scores_sorted:
  "sorted (map the_distance rs) \<Longrightarrow>
   sorted_wrt (\<lambda>a b. sr_score b \<le> sr_score a) (map to_result rs)"
  by (simp add: sorted_wrt_map score_the_distance sorted_map)

lemma example_hits:
  "search_hits example_db [1, 0] (Some 5) None None =
     Inr [with_distance example_db [1, 0] near_row, with_distance example_db [1, 0] far_row]"
  by (simp add: search_hits_def openTable_def example_db_def vectorSearch_def truthy_filter_def
        with_distance_def l2_def far_row_def near_row_def code_row.extend_def
        hit_row.fields_def the_distance_def)

lemma example_distances:
  "row_distance (with_distance example_db [1, 0] near_row) = Some (4 / 5) \<and>
   row_distance (with_distance example_db [1, 0] far_row) = Some 4"
  by (simp add: example_db_def with_distance_def l2_def far_row_def near_row_def
        code_row.extend_def hit_row.fields_def)

text \<open>
  C3, as stated, fails: a hit at a distance above 1 has a negative score, although its
  distance is non-negative. In the example table the row at squared distance 4 from the
  query is returned with score -3.
\<close>

theorem search_score_below_zero:
  "search example_db [1, 0] (Some 5) None None =
     Inr [to_result (with_distance example_db [1, 0] near_row),
          to_result (with_distance example_db [1, 0] far_row)] \<and>
   row_distance (with_distance example_db [1, 0] far_row) = Some 4 \<and>
   sr_score (to_result (with_distance example_db [1, 0] far_row)) = - 3 \<and>
   \<not> 0 \<le> sr_score (to_result (with_distance example_db [1, 0] far_row))"
  using example_distances
  by (simp add: search_def example_hits score_of_hit)

text \<open>
  C3, amended: a search that returns gives at most \<open>limit\<close> hits (5 when the limit is
  omitted), in order of non-increasing score; each hit is made from a row of the vector
  query, its score is 1 minus the distance of that row, it is at most 1 when the distance
  is non-negative, and it is non-negative exactly when the distance is at most 1.
\<close>

theorem search_hits_bounded_and_ordered:
  assumes "search db q limit flt tn = Inr hits"
  shows "length hits \<le> (case limit of None \<Rightarrow> 5 | Some n \<Rightarrow> n) \<and>
         sorted_wrt (\<lambda>a b. sr_score b \<le> sr_score a) hits \<and>
         (\<exists>rows. search_hits db q limit flt tn = Inr rows \<and> hits = map to_result rows \<and>
            (\<forall>r \<in> set rows. \<exists>d. row_distance r = Some d \<and> sr_score (to_result r) = 1 - d \<and>
                (0 \<le> d \<longrightarrow> sr_score (to_result r) \<le> 1) \<and>
                (0 \<le> sr_score (to_result r) \<longleftrightarrow> d \<le> 1)))"
proof -
  from assms obtain rows where rows: "search_hits db q limit flt tn = Inr rows"
    and hits: "hits = map to_result rows"
    by (auto simp: search_def split: sum.splits)
  from rows obtain t where
    vs: "rows = vectorSearch db t q (case limit of None \<Rightarrow> 5 | Some n \<Rightarrow> n) (truthy_filter flt)"
    by (auto simp: search_hits_def split: sum.splits)
  have "length hits \<le> (case limit of None \<Rightarrow> 5 | Some n \<Rightarrow> n)"
    unfolding hits vs by (simp add: vectorSearch_length)
  moreover have "sorted_wrt (\<lambda>a b. sr_score b \<le> sr_score a) hits"
    unfolding hits vs by (rule scores_sorted[OF vectorSearch_sorted])
  moreover have "\<exists>d. row_distance r = Some d \<and> sr_score (to_result r) = 1 - d \<and>
                (0 \<le> d \<longrightarrow> sr_score (to_result r) \<le> 1) \<and>
                (0 \<le> sr_score (to_result r) \<longleftrightarrow> d \<le> 1)" if "r \<in> set rows" for r
  proof -
    from that obtain d where d: "row_distance r = Some d"
      unfolding vs by (auto dest: vectorSearch_distance)
    then show ?thesis by (simp add: score_of_hit)
  qed
  ultimately show ?thesis using rows hits by blast
qed

theorem search_hits_bounded_and_ordered_witness:
  "search example_db [1, 0] (Some 1) None None =
     Inr [to_result (with_distance example_db [1, 0] near_row)] \<and>
   length [to_result (with_distance example_db [1, 0] near_row)] \<le> 1 \<and>
   sr_score (to_result (with_distance example_db [1, 0] near_row)) = 1 / 5"
proof -
  have run: "search example_db [1, 0] (Some 1) None None =
               Inr [to_result (with_distance example_db [1, 0] near_row)]"
    by (simp add: search_def search_hits_def openTable_def example_db_def vectorSearch_def
          truthy_filter_def with_distance_def l2_def far_row_def near_row_def
          code_row.extend_def hit_row.fields_def the_distance_def)
  have near: "sr_score (to_result (with_distance example_db [1, 0] near_row)) = 1 / 5"
    using score_of_hit[OF example_distances[THEN conjunct1]] by simp
  from search_hits_bounded_and_ordered[OF run] have "length [to_result (with_distance example_db [1, 0] near_row)] \<le> 1"
    by simp
  with run near show ?thesis by blast
qed

text \<open>
  C10: a row of the vector query without a distance, or with distance 0, gets score
  exactly 1, and the two cases give the same result.
\<close>

theorem search_missing_distance_scores_one:
  "(row_distance row = None \<or> row_distance row = Some 0 \<longrightarrow> sr_score (to_result row) = 1) \<and>
   to_result (row\<lparr>row_distance := None\<rparr>) = to_result (row\<lparr>row_distance := Some 0\<rparr>)"
  by (auto simp: to_result_def distance_or_0_def)

theorem search_missing_distance_scores_one_witness:
  "row_distance ((with_distance example_db [1, 0] far_row)\<lparr>row_distance := None\<rparr>) = None \<and>
   sr_score (to_result ((with_distance example_db [1, 0] far_row)\<lparr>row_distance := None\<rparr>)) = 1 \<and>
   row_distance (with_distance example_db [- 1, 0] far_row) = Some 0 \<and>
   sr_score (to_result (with_distance example_db [- 1, 0] far_row)) = 1"
proof -
  have zero: "row_distance (with_distance example_db [- 1, 0] far_row) = Some 0"
    by (simp add: example_db_def with_distance_def l2_def far_row_def
          code_row.extend_def hit_row.fields_def)
  show ?thesis
    using search_missing_distance_scores_one
            [THEN conjunct1, of "(with_distance example_db [1, 0] far_row)\<lparr>row_distance := None\<rparr>"]
          search_missing_distance_scores_one
            [THEN conjunct1, of "with_distance example_db [- 1, 0] far_row"]
          zero
    by simp
qed

section \<open>The full-table scan of getStats\<close>

lemma scan_unfold_last:
  "length (query_page t bs off) < bs \<Longrightarrow>
   scan t bs off acc pages =
     (pages @ [(off, length (query_page t bs off))], foldl add_names acc (query_page t bs off))"
  by (subst scan.simps) (auto simp add: Let_def)

lemma scan_unfold_full:
  "0 < bs \<Longrightarrow> \<not> length (query_page t bs off) < bs \<Longrightarrow>
   scan t bs off acc pages =
     scan t bs (off + length (query_page t bs off)) (foldl add_names acc (query_page t bs off))
       (pages @ [(off, length (query_page t bs off))])"
  by (subst scan.simps) (auto simp add: Let_def)

lemma scan_result:
  "0 < bs \<Longrightarrow> snd (scan t bs off acc pages) = foldl add_names acc (drop off t)"
proof (induction t bs off acc pages rule: scan.induct)
  case (1 t bs off acc pages)
  let ?b = "query_page t bs off"
  show ?case
  proof (cases "length ?b < bs")
    case True
    then have "?b = drop off t" by (simp add: query_page_def)
    with True show ?thesis by (simp add: scan_unfold_last)
  next
    case False
    then have nz: "length ?b \<noteq> 0" using 1(2) by linarith
    have "snd (scan t bs off acc pages) =
            foldl add_names (foldl add_names acc ?b) (drop (off + length ?b) t)"
      using 1(1)[OF refl refl nz False 1(2)] by (simp add: scan_unfold_full[OF 1(2) False])
    also have "\<dots> = foldl add_names acc (?b @ drop (off + length ?b) t)" by simp
    also have "?b @ drop (off + length ?b) t = drop off t"
      using False
      by (simp add: query_page_def add.commute[of off] drop_drop[symmetric] del: drop_drop)
    finally show ?thesis .
  qed
qed

lemma scan_rows_total:
  "0 < bs \<Longrightarrow> sum_list (map snd (fst (scan t bs off acc pages))) =
     sum_list (map snd pages) + (length t - off)"
proof (induction t bs off acc pages rule: scan.induct)
  case (1 t bs off acc pages)
  let ?b = "query_page t bs off"
  have len: "length ?b = min bs (length t - off)" by (simp add: query_page_def)
  show ?case
  proof (cases "length ?b < bs")
    case True
    then show ?thesis using len by (simp add: scan_unfold_last)
  next
    case False
    then have nz: "length ?b \<noteq> 0" using 1(2) by linarith
    show ?thesis
      using 1(1)[OF refl refl nz False 1(2)] False len
      by (simp add: scan_unfold_full[OF 1(2) False])
  qed
qed

lemma foldl_add_names:
  "foldl add_names acc rows =
     (fst acc \<union> {row_className r | r. r \<in> set rows \<and> row_className r \<noteq> []},
      snd acc \<union> {row_packageName r | r. r \<in> set rows \<and> row_packageName r \<noteq> []})"
  by (induction rows arbitrary: acc) (auto simp: add_names_def Let_def)

lemma scan_pages:
  "0 < bs \<Longrightarrow> fst (scan t bs off acc pages) =
     pages @ map (\<lambda>i. (off + i * bs, min bs (length t - (off + i * bs))))
                 [0 ..< (length t - off) div bs + 1]"
proof (induction t bs off acc pages rule: scan.induct)
  case (1 t bs off acc pages)
  let ?b = "query_page t bs off"
  have len: "length ?b = min bs (length t - off)"
    by (simp add: query_page_def)
  show ?case
  proof (cases "length ?b < bs")
    case True
    then have "length t - off < bs" using len by simp
    then show ?thesis using len by (simp add: scan_unfold_last[OF True])
  next
    case False
    then have ge: "bs \<le> length t - off" using len by simp
    have lb: "length ?b = bs" using len ge by simp
    have nz: "length ?b \<noteq> 0" using lb 1(2) by simp
    let ?k = "(length t - (off + bs)) div bs"
    let ?f = "\<lambda>i. (off + i * bs, min bs (length t - (off + i * bs)))"
    let ?g = "\<lambda>i. (off + bs + i * bs, min bs (length t - (off + bs + i * bs)))"
    have IH: "fst (scan t bs (off + bs) (foldl add_names acc ?b) (pages @ [(off, bs)])) =
                (pages @ [(off, bs)]) @ map ?g [0 ..< ?k + 1]"
      using 1(1)[OF refl refl nz False 1(2)] lb by simp
    have dv: "(length t - off) div bs = Suc ?k"
      using le_div_geq[OF 1(2) ge] by (simp add: diff_diff_left)
    have step: "fst (scan t bs off acc pages) =
                  fst (scan t bs (off + bs) (foldl add_names acc ?b) (pages @ [(off, bs)]))"
      using lb by (simp add: scan_unfold_full[OF 1(2) False])
    have shift: "map ?f [0 ..< Suc (?k + 1)] = (off, bs) # map ?g [0 ..< ?k + 1]"
    proof -
      have "?f 0 = (off, bs)" using ge by simp
      moreover have "(\<lambda>i. ?f (Suc i)) = ?g"
        by (rule ext) (simp add: ac_simps)
      ultimately show ?thesis
        unfolding map_upt_Suc[of ?f] by simp
    qed
    show ?thesis
      unfolding step IH dv using shift by simp
  qed
qed

lemma getStats_result:
  assumes "db_tables db n = Some table"
  shows "getStats db (Some n) =
           Inr \<lparr> totalMethods = length table,
                  uniqueClasses =
                    card {row_className r | r. r \<in> set table \<and> row_className r \<noteq> []},
                  uniquePackages =
                    card {row_packageName r | r. r \<in> set table \<and> row_packageName r \<noteq> []} \<rparr>"
proof -
  have "snd (scan table 5000 0 ({}, {}) []) = foldl add_names ({}, {}) table"
    using scan_result[of 5000 table 0 "({}, {})" "[]"] by simp
  then have "snd (scan table 5000 0 ({}, {}) []) =
      ({row_className r | r. r \<in> set table \<and> row_className r \<noteq> []},
       {row_packageName r | r. r \<in> set table \<and> row_packageName r \<noteq> []})"
    by (simp add: foldl_add_names)
  then show ?thesis
    using assms
    by (auto simp: getStats_def openTable_def countRows_def split: prod.splits)
qed

text \<open>
  C9: on every table (a finite sequence of rows) the scan of \<^verbatim>\<open>getStats\<close> terminates.
  It requests the pages at the offsets 0, 5000, 10000, ... and receives at most 5000 rows
  for each; every page but the last is full and the next offset is the offset plus the
  number of rows received; the last page, the first with fewer than 5000 rows (possibly
  none), ends the scan. The pages together are the rows of the table, and the scan returns
  the names collected from all of them.
\<close>

theorem getStats_scan_terminates:
  "let pages = fst (scan table 5000 0 ({}, {}) []) in
     pages = map (\<lambda>i. (i * 5000, min 5000 (length table - i * 5000)))
                 [0 ..< length table div 5000 + 1] \<and>
     (\<forall>i < length pages. snd (pages ! i) \<le> 5000) \<and>
     (\<forall>i. Suc i < length pages \<longrightarrow>
          snd (pages ! i) = 5000 \<and> fst (pages ! Suc i) = fst (pages ! i) + snd (pages ! i)) \<and>
     snd (last pages) < 5000 \<and>
     sum_list (map snd pages) = length table \<and>
     snd (scan table 5000 0 ({}, {}) []) = foldl add_names ({}, {}) table"
proof -
  let ?n = "length table"
  let ?f = "\<lambda>i. (i * 5000, min 5000 (?n - i * 5000))"
  define pages where "pages = fst (scan table 5000 0 ({}, {}) [])"
  have closed: "pages = map ?f [0 ..< ?n div 5000 + 1]"
    unfolding pages_def using scan_pages[of 5000 table 0 "({}, {})" "[]"] by simp
  have len: "length pages = ?n div 5000 + 1"
    unfolding closed by simp
  have nth: "pages ! i = ?f i" if "i < length pages" for i
    using that len unfolding closed by (simp add: nth_map_upt del: upt_Suc)
  have bounded: "\<forall>i < length pages. snd (pages ! i) \<le> 5000"
    by (simp add: nth)
  have full: "snd (pages ! i) = 5000 \<and> fst (pages ! Suc i) = fst (pages ! i) + snd (pages ! i)"
    if "Suc i < length pages" for i
  proof -
    from that len have "Suc i \<le> ?n div 5000" by simp
    then have "Suc i * 5000 \<le> ?n"
      by (simp add: less_eq_div_iff_mult_less_eq)
    then have "min 5000 (?n - i * 5000) = 5000" by simp
    with that show ?thesis by (simp add: nth)
  qed
  have "last pages = ?f (?n div 5000)"
    unfolding closed by simp
  then have short: "snd (last pages) < 5000"
    by (simp add: minus_mod_eq_div_mult[symmetric] min_def)
  have total: "sum_list (map snd pages) = ?n"
    unfolding pages_def using scan_rows_total[of 5000 table 0 "({}, {})" "[]"] by simp
  have result: "snd (scan table 5000 0 ({}, {}) []) = foldl add_names ({}, {}) table"
    using scan_result[of 5000 table 0 "({}, {})" "[]"] by simp
  show ?thesis
    unfolding Let_def pages_def[symmetric]
    using closed bounded full short total result by blast
qed

theorem getStats_scan_terminates_witness:
  "scan [far_row, near_row] 5000 0 ({}, {}) [] = ([(0, 2)], {''Inventory''}, {''com.hypixel''}) \<and>
   getStats example_db None =
     Inr \<lparr> totalMethods = 2, uniqueClasses = 1, uniquePackages = 1 \<rparr>"
proof -
  have pages: "fst (scan [far_row, near_row] 5000 0 ({}, {}) []) = [(0, 2)]"
    using getStats_scan_terminates[of "[far_row, near_row]"] by (simp add: Let_def)
  have names: "snd (scan [far_row, near_row] 5000 0 ({}, {}) []) =
                 ({''Inventory''}, {''com.hypixel''})"
    using getStats_scan_terminates[of "[far_row, near_row]"]
    by (simp add: Let_def add_names_def far_row_def near_row_def)
  have run: "scan [far_row, near_row] 5000 0 ({}, {}) [] =
               ([(0, 2)], {''Inventory''}, {''com.hypixel''})"
    using pages names by (simp add: prod_eq_iff)
  show ?thesis
    using run
    by (simp add: getStats_def openTable_def example_db_def countRows_def)
qed

section \<open>The limit of a search\<close>

lemma parse_type_issues: "parse_type t x = Inl cs \<Longrightarrow> cs \<noteq> []"
  by (induction t x rule: parse_type.induct) (auto simp: Let_def split: if_splits)

lemma parse_field_issues: "parse_field f v = Inl cs \<Longrightarrow> cs \<noteq> []"
  by (auto simp: parse_field_def split: option.splits if_splits sum.splits dest: parse_type_issues)

lemma parse_fields_keys: "fst ` set (snd (parse_fields schema kvs)) \<subseteq> fst ` set schema"
  by (induction schema) (force split: prod.splits sum.splits option.splits)+

lemma parse_fields_no_issues:
  "fst (parse_fields schema kvs) = [] \<longleftrightarrow>
     (\<forall>(k, f) \<in> set schema. \<exists>y. parse_field f (map_of kvs k) = Inr y)"
  by (induction schema)
     (auto split: prod.splits sum.splits option.splits dest: parse_field_issues)

lemma parse_fields_value:
  "distinct (map fst schema) \<Longrightarrow> (k, f) \<in> set schema \<Longrightarrow>
   parse_field f (map_of kvs k) = Inr y \<Longrightarrow> map_of (snd (parse_fields schema kvs)) k = y"
proof (induction schema)
  case Nil
  then show ?case by simp
next
  case (Cons a schema)
  obtain k' f' where a: "a = (k', f')" by (cases a)
  show ?case
  proof (cases "k' = k")
    case True
    with Cons.prems a have f: "f' = f"
      by (auto simp: rev_image_eqI)
    have "k \<notin> fst ` set (snd (parse_fields schema kvs))"
      using Cons.prems(1) a True parse_fields_keys[of schema kvs] by auto
    then have "map_of (snd (parse_fields schema kvs)) k = None"
      by (simp add: map_of_eq_None_iff)
    with Cons.prems(3) a True f show ?thesis
      by (auto split: prod.splits sum.splits option.splits)
  next
    case False
    with Cons a show ?thesis
      by (auto split: prod.splits sum.splits option.splits)
  qed
qed

lemma safeParse_Inr:
  "safeParse schema raw = Inr out \<longleftrightarrow>
     (\<exists>kvs. raw = JObj kvs \<and> fst (parse_fields schema kvs) = [] \<and> out = snd (parse_fields schema kvs))"
  by (cases raw) (auto simp: safeParse_def split: prod.splits)

lemma parse_fields_issue:
  "(k, f) \<in> set schema \<Longrightarrow> parse_field f (map_of kvs k) = Inl cs \<Longrightarrow> c \<in> set cs \<Longrightarrow>
     Issue k c \<in> set (fst (parse_fields schema kvs))"
  by (induction schema) (auto split: prod.splits sum.splits option.splits)

lemma parse_limit_field:
  "parse_field limit_field v =
     (case v of None \<Rightarrow> Inr (Some (JNum 5))
      | Some (JNum x) \<Rightarrow>
          if is_integer x \<and> 1 \<le> x \<and> x \<le> 20 then Inr (Some (JNum x))
          else Inl ((if \<not> is_integer x then [NotInteger] else []) @
                    (if x < 1 then [TooSmall] else []) @ (if 20 < x then [TooBig] else []))
      | Some _ \<Rightarrow> Inl [InvalidType])"
  by (cases v; cases "the v") (auto simp: parse_field_def limit_field_def is_integer_def Let_def)

lemma schema_accepts_limit:
  assumes "safeParse schema raw = Inr out"
    and "distinct (map fst schema)" and "(''limit'', limit_field) \<in> set schema"
  shows "\<exists>kvs l. raw = JObj kvs \<and> map_of out ''limit'' = Some (JNum l) \<and>
           is_integer l \<and> 1 \<le> l \<and> l \<le> 20 \<and>
           (case map_of kvs ''limit'' of None \<Rightarrow> l = 5 | Some x \<Rightarrow> x = JNum l)"
proof -
  from assms(1) obtain kvs where raw: "raw = JObj kvs"
    and ok: "fst (parse_fields schema kvs) = []"
    and out: "out = snd (parse_fields schema kvs)"
    by (auto simp: safeParse_Inr)
  from ok assms(3) obtain y where y: "parse_field limit_field (map_of kvs ''limit'') = Inr y"
    unfolding parse_fields_no_issues by blast
  have "map_of out ''limit'' = y"
    unfolding out by (rule parse_fields_value[OF assms(2) assms(3) y])
  with y raw show ?thesis
    by (auto simp: parse_limit_field is_integer_def split: option.splits json.splits if_splits)
qed

lemma schema_rejects_limit:
  assumes "map_of kvs ''limit'' = Some (JNum x)" and "x < 1 \<or> 20 < x"
    and "(''limit'', limit_field) \<in> set schema"
  shows "\<exists>issues. safeParse schema (JObj kvs) = Inl issues \<and>
           Issue ''limit'' (if x < 1 then TooSmall else TooBig) \<in> set issues"
proof -
  have "\<exists>cs. parse_field limit_field (map_of kvs ''limit'') = Inl cs \<and>
             (if x < 1 then TooSmall else TooBig) \<in> set cs"
    using assms(1,2) by (auto simp: parse_limit_field)
  then obtain cs where cs: "parse_field limit_field (map_of kvs ''limit'') = Inl cs"
     and c: "(if x < 1 then TooSmall else TooBig) \<in> set cs" by blast
  have "Issue ''limit'' (if x < 1 then TooSmall else TooBig) \<in> set (fst (parse_fields schema kvs))"
    by (rule parse_fields_issue[OF assms(3) cs c])
  then show ?thesis
    by (auto simp: safeParse_def split: prod.splits)
qed

lemma search_schemas:
  assumes "schema = searchCodeSchema \<or> schema = searchDocsSchema"
  shows "distinct (map fst schema) \<and> (''limit'', limit_field) \<in> set schema"
  using assms by (auto simp: searchCodeSchema_def searchDocsSchema_def)

lemma clamp_limit_range: "1 \<le> clamp_limit l \<and> clamp_limit l \<le> 20"
  by (simp add: clamp_limit_def split: option.splits)

lemma clamp_limit_cases:
  "clamp_limit None = 5"
  "x < 1 \<Longrightarrow> clamp_limit (Some x) = 1"
  "20 < x \<Longrightarrow> clamp_limit (Some x) = 20"
  "1 \<le> x \<Longrightarrow> x \<le> 20 \<Longrightarrow> clamp_limit (Some x) = x"
  by (simp_all add: clamp_limit_def)

lemma handler_search_limit:
  "searchDocs_handler input context = (calls, result) \<Longrightarrow> Search t v l f \<in> set calls \<Longrightarrow>
     l = clamp_limit (sd_limit input)"
  by (auto simp: searchDocs_handler_def Let_def split: option.splits sum.splits if_splits)

lemma handler_reaches_search:
  assumes "\<not> truthy (configError context)" and "embedding context = Some provider"
    and "embedQuery provider (sd_query input) ''text'' = Inr queryVector"
  shows "\<exists>flt. fst (searchDocs_handler input context) =
           [EmbedQuery (sd_query input) ''text'',
            Search (tables_docs (config context)) queryVector (clamp_limit (sd_limit input)) flt]"
  using assms by (auto simp: searchDocs_handler_def Let_def split: sum.splits)

lemma limit_25_rejected: "safeParse searchDocsSchema (JObj [(''query'', JStr ''farming''), (''limit'', JNum 25)]) = Inl [Issue ''limit'' TooBig]"
  by (simp add: safeParse_def searchDocsSchema_def query_field_def limit_field_def parse_field_def is_integer_def DOCS_TYPES_def)

lemma limit_0_rejected: "safeParse searchCodeSchema (JObj [(''query'', JStr ''farming''), (''limit'', JNum 0)]) = Inl [Issue ''limit'' TooSmall]"
  by (simp add: safeParse_def searchCodeSchema_def query_field_def limit_field_def classFilter_field_def parse_field_def is_integer_def DOCS_TYPES_def)

text \<open>
  C2, as stated, fails: a limit outside the range is not clamped by the schemas, it is
  rejected. \<^verbatim>\<open>searchDocsSchema\<close> answers a limit of 25 with the issue \<^verbatim>\<open>too_big\<close> and
  \<^verbatim>\<open>searchCodeSchema\<close> answers a limit of 0 with the issue \<^verbatim>\<open>too_small\<close>, so validation
  of such an input fails.
\<close>

theorem search_limit_rejected_by_schema:
  "safeParse searchDocsSchema (JObj [(''query'', JStr ''farming''), (''limit'', JNum 25)]) =
     Inl [Issue ''limit'' TooBig] \<and>
   safeParse searchCodeSchema (JObj [(''query'', JStr ''farming''), (''limit'', JNum 0)]) =
     Inl [Issue ''limit'' TooSmall]"
  by (simp add: limit_25_rejected limit_0_rejected)

text \<open>
  C2, amended: the handler of the documentation search clamps the limit it is given. Every
  search it sends to the vector store carries the limit
  \<^verbatim>\<open>min(max(1, limit ?? 5), 20)\<close>, and it does send one whenever there is no
  configuration error and the provider embeds the query; that limit lies in the range
  from 1 to 20, is 5 for an omitted limit, 1 for a limit below 1 and 20 for a limit above
  20. The schemas of the code search and of the documentation search do not clamp: an
  input they accept has an integer limit from 1 to 20, which is 5 when the input has none,
  and an input whose limit is a number below 1 or above 20 fails validation with an issue
  on the field \<^verbatim>\<open>limit\<close>.
\<close>

theorem search_limit_clamped_by_handler:
  "(\<forall>calls result t v l f.
       searchDocs_handler input context = (calls, result) \<and> Search t v l f \<in> set calls \<longrightarrow>
         l = clamp_limit (sd_limit input)) \<and>
   (\<forall>provider queryVector.
       \<not> truthy (configError context) \<and> embedding context = Some provider \<and>
       embedQuery provider (sd_query input) ''text'' = Inr queryVector \<longrightarrow>
         (\<exists>flt. fst (searchDocs_handler input context) =
            [EmbedQuery (sd_query input) ''text'',
             Search (tables_docs (config context)) queryVector (clamp_limit (sd_limit input)) flt])) \<and>
   1 \<le> clamp_limit (sd_limit input) \<and> clamp_limit (sd_limit input) \<le> 20 \<and>
   clamp_limit None = 5 \<and>
   (x < 1 \<longrightarrow> clamp_limit (Some x) = 1) \<and>
   (20 < x \<longrightarrow> clamp_limit (Some x) = 20) \<and>
   (1 \<le> x \<and> x \<le> 20 \<longrightarrow> clamp_limit (Some x) = x) \<and>
   (schema = searchCodeSchema \<or> schema = searchDocsSchema \<longrightarrow>
      (\<forall>out. safeParse schema raw = Inr out \<longrightarrow>
         (\<exists>kvs l. raw = JObj kvs \<and> map_of out ''limit'' = Some (JNum l) \<and>
              is_integer l \<and> 1 \<le> l \<and> l \<le> 20 \<and>
              (case map_of kvs ''limit'' of None \<Rightarrow> l = 5 | Some y \<Rightarrow> y = JNum l))) \<and>
      (map_of kvs ''limit'' = Some (JNum x) \<and> (x < 1 \<or> 20 < x) \<longrightarrow>
         (\<exists>issues. safeParse schema (JObj kvs) = Inl issues \<and>
              Issue ''limit'' (if x < 1 then TooSmall else TooBig) \<in> set issues)))"
proof -
  have a: "\<forall>calls result t v l f.
       searchDocs_handler input context = (calls, result) \<and> Search t v l f \<in> set calls \<longrightarrow>
         l = clamp_limit (sd_limit input)"
    using handler_search_limit by blast
  have b: "\<forall>provider queryVector.
       \<not> truthy (configError context) \<and> embedding context = Some provider \<and>
       embedQuery provider (sd_query input) ''text'' = Inr queryVector \<longrightarrow>
         (\<exists>flt. fst (searchDocs_handler input context) =
            [EmbedQuery (sd_query input) ''text'',
             Search (tables_docs (config context)) queryVector (clamp_limit (sd_limit input)) flt])"
    using handler_reaches_search by blast
  have c: "\<forall>out. safeParse schema raw = Inr out \<longrightarrow>
      (\<exists>kvs l. raw = JObj kvs \<and> map_of out ''limit'' = Some (JNum l) \<and>
           is_integer l \<and> 1 \<le> l \<and> l \<le> 20 \<and>
           (case map_of kvs ''limit'' of None \<Rightarrow> l = 5 | Some y \<Rightarrow> y = JNum l))"
    if "schema = searchCodeSchema \<or> schema = searchDocsSchema"
    using schema_accepts_limit search_schemas[OF that] by blast
  have d: "map_of kvs ''limit'' = Some (JNum x) \<and> (x < 1 \<or> 20 < x) \<longrightarrow>
      (\<exists>issues. safeParse schema (JObj kvs) = Inl issues \<and>
           Issue ''limit'' (if x < 1 then TooSmall else TooBig) \<in> set issues)"
    if "schema = searchCodeSchema \<or> schema = searchDocsSchema"
    using schema_rejects_limit search_schemas[OF that] by blast
  have e: "schema = searchCodeSchema \<or> schema = searchDocsSchema \<longrightarrow>
      (\<forall>out. safeParse schema raw = Inr out \<longrightarrow>
         (\<exists>kvs l. raw = JObj kvs \<and> map_of out ''limit'' = Some (JNum l) \<and>
              is_integer l \<and> 1 \<le> l \<and> l \<le> 20 \<and>
              (case map_of kvs ''limit'' of None \<Rightarrow> l = 5 | Some y \<Rightarrow> y = JNum l))) \<and>
      (map_of kvs ''limit'' = Some (JNum x) \<and> (x < 1 \<or> 20 < x) \<longrightarrow>
         (\<exists>issues. safeParse schema (JObj kvs) = Inl issues \<and>
              Issue ''limit'' (if x < 1 then TooSmall else TooBig) \<in> set issues))"
    using c d by blast
  show ?thesis
    using a b e clamp_limit_range[of "sd_limit input"] clamp_limit_cases(1)
      clamp_limit_cases(2-4)[of x]
    by (intro conjI impI) simp_all
qed

theorem search_limit_clamped_by_handler_witness:
  "searchDocs_handler \<lparr> sd_query = ''farming'', sd_type = None, sd_limit = Some 25 \<rparr> seeded_context =
     ([EmbedQuery ''farming'' ''text'', Search ''hytale_docs'' [0, 0] 20 None],
      Inr (Success [to_docs_result \<lparr> hit_data = guide_row, hit_score = 1 \<rparr>])) \<and>
   clamp_limit (Some 25) = 20 \<and> clamp_limit (Some 0) = 1 \<and> clamp_limit None = 5"
proof -
  let ?input = "\<lparr> sd_query = ''farming'', sd_type = None, sd_limit = Some 25 \<rparr>"
  have run: "searchDocs_handler ?input seeded_context =
     ([EmbedQuery ''farming'' ''text'', Search ''hytale_docs'' [0, 0] (clamp_limit (Some 25)) None],
      Inr (Success [to_docs_result \<lparr> hit_data = guide_row, hit_score = 1 \<rparr>]))"
    by (simp add: searchDocs_handler_def seeded_context_def example_provider_def truthy_def
          example_config_def memory_store_def clamp_limit_def Let_def)
  have hi: "clamp_limit (Some 25) = 20"
    using search_limit_clamped_by_handler[of ?input seeded_context 25] by simp
  have lo: "clamp_limit (Some 0) = 1"
    using search_limit_clamped_by_handler[of ?input seeded_context 0] by simp
  have dflt: "clamp_limit None = 5"
    using search_limit_clamped_by_handler[of ?input seeded_context 0] by simp
  show ?thesis using run hi lo dflt by simp
qed

section \<open>The documentation statistics\<close>

lemma foldl_foldl_concat:
  "foldl (foldl f) acc xss = foldl f acc (concat xss)"
  by (induction xss arbitrary: acc) auto

lemma docsStats_never_throws: "\<exists>calls r. docsStats_handler context = (calls, Inr r)"
  by (auto simp: docsStats_handler_def Let_def split: sum.splits prod.splits)

lemma docsStats_success:
  assumes "\<not> truthy (configError context)"
    and "vs_tableExists (vectorStore context) (tables_docs (config context)) = Inr True"
    and "vs_getStats (vectorStore context) (tables_docs (config context)) = Inr n"
    and "vs_queryAll (vectorStore context) (tables_docs (config context)) = Inr batches"
  shows "snd (docsStats_handler context) =
           Inr (Success \<lparr> totalDocs = n,
                  byCategory = fst (foldl count_row (Map.empty, Map.empty) (concat batches)),
                  byType = snd (foldl count_row (Map.empty, Map.empty) (concat batches)) \<rparr>)"
  using assms
  by (simp add: docsStats_handler_def Let_def foldl_foldl_concat split: prod.splits)

lemma docsStats_missing:
  assumes "vs_tableExists (vectorStore context) (tables_docs (config context)) = Inr False"
  shows "docsStats_handler context =
           (if truthy (configError context) then ([], Inr (Failure (or_else (configError context) [])))
            else ([TableExists (tables_docs (config context))], Inr (Failure table_not_found)))"
  using assms by (simp add: docsStats_handler_def Let_def)

lemma seeded_run:
  "docsStats_handler seeded_context =
     ([TableExists ''hytale_docs'', GetStats ''hytale_docs'', QueryAll ''hytale_docs''],
      Inr (Success \<lparr> totalDocs = 1, byCategory = [''plugin'' \<mapsto> 1], byType = [''guide'' \<mapsto> 1] \<rparr>))"
  by (simp add: docsStats_handler_def seeded_context_def memory_store_def example_config_def truthy_def
        guide_row_def count_row_def bump_def or_else_def Let_def)

lemma empty_run:
  "docsStats_handler (seeded_context\<lparr>vectorStore := memory_store [''hytale_docs'' \<mapsto> []]\<rparr>) =
     ([TableExists ''hytale_docs'', GetStats ''hytale_docs'', QueryAll ''hytale_docs''],
      Inr (Success \<lparr> totalDocs = 0, byCategory = Map.empty, byType = Map.empty \<rparr>))"
  by (simp add: docsStats_handler_def seeded_context_def memory_store_def example_config_def truthy_def Let_def)

lemma table_not_found_hint: "mentions table_not_found ''npm run ingest-docs''"
  by (simp add: table_not_found_def startsWith_def)

lemma api_key_missing_no_hint: "\<not> mentions (api_key_missing ''VOYAGE_API_KEY'') ''npm run ingest''"
  by (simp add: api_key_missing_def startsWith_def NL_def)

text \<open>
  C5, as stated, fails: with a configuration error in the context, the statistics tool
  returns that error before it looks at the table, and the error does not mention the
  ingestion command. The context is the one \<^verbatim>\<open>main\<close> builds in MCP mode when no API
  key is configured; its store has no table.
\<close>

theorem docs_stats_config_error_hides_hint:
  "vs_tableExists (vectorStore no_key_context) (tables_docs (config no_key_context)) = Inr False \<and>
   docsStats_handler no_key_context = ([], Inr (Failure (api_key_missing ''VOYAGE_API_KEY''))) \<and>
   \<not> mentions (api_key_missing ''VOYAGE_API_KEY'') ''npm run ingest''"
  by (simp add: docsStats_handler_def no_key_context_def memory_store_def truthy_def or_else_def
        api_key_missing_no_hint) (simp add: api_key_missing_def)

text \<open>
  C5, amended: when the store reports that the documentation table does not exist and the
  context carries no configuration error, the statistics tool asks the store only that
  and returns the failure ``Documentation table not found. Run 'npm run ingest-docs' to
  index the documentation.'', which mentions the ingestion command; when the context
  carries a configuration error, it returns that error and asks the store nothing.
\<close>

theorem docs_stats_missing_table_message:
  assumes "vs_tableExists (vectorStore context) (tables_docs (config context)) = Inr False"
  shows "(\<not> truthy (configError context) \<longrightarrow>
            docsStats_handler context =
              ([TableExists (tables_docs (config context))], Inr (Failure table_not_found))) \<and>
         (truthy (configError context) \<longrightarrow>
            docsStats_handler context = ([], Inr (Failure (or_else (configError context) [])))) \<and>
         mentions table_not_found ''npm run ingest-docs''"
  using docsStats_missing[OF assms] table_not_found_hint by simp

theorem docs_stats_missing_table_message_witness:
  "vs_tableExists (vectorStore (seeded_context\<lparr>vectorStore := memory_store Map.empty\<rparr>))
      (tables_docs (config (seeded_context\<lparr>vectorStore := memory_store Map.empty\<rparr>))) = Inr False \<and>
   docsStats_handler (seeded_context\<lparr>vectorStore := memory_store Map.empty\<rparr>) =
     ([TableExists ''hytale_docs''], Inr (Failure table_not_found))"
proof -
  let ?c = "seeded_context\<lparr>vectorStore := memory_store Map.empty\<rparr>"
  have missing: "vs_tableExists (vectorStore ?c) (tables_docs (config ?c)) = Inr False"
    by (simp add: seeded_context_def memory_store_def)
  have "\<not> truthy (configError ?c)" by (simp add: seeded_context_def truthy_def)
  with docs_stats_missing_table_message[OF missing] missing
  show ?thesis by (simp add: seeded_context_def example_config_def)
qed

text \<open>
  C7, as stated, fails twice: on a table that exists and has no rows the tool succeeds,
  with a total of 0 and empty breakdowns; and on the seeded table it fails when the
  context carries a configuration error.
\<close>

theorem docs_stats_empty_table_succeeds:
  "docsStats_handler (seeded_context\<lparr>vectorStore := memory_store [''hytale_docs'' \<mapsto> []]\<rparr>) =
     ([TableExists ''hytale_docs'', GetStats ''hytale_docs'', QueryAll ''hytale_docs''],
      Inr (Success \<lparr> totalDocs = 0, byCategory = Map.empty, byType = Map.empty \<rparr>)) \<and>
   docsStats_handler (seeded_context\<lparr>configError := Some (api_key_missing ''VOYAGE_API_KEY'')\<rparr>) =
     ([], Inr (Failure (api_key_missing ''VOYAGE_API_KEY'')))"
  by (simp add: empty_run)
     (simp add: docsStats_handler_def seeded_context_def truthy_def or_else_def api_key_missing_def)

text \<open>
  C7, amended: on a table that the store reports as not existing the tool returns a
  failure. With no configuration error, on a table that exists, whose row count is the
  number of rows its scan yields: if the scan yields exactly one record, of type
  \<^verbatim>\<open>guide\<close> and category \<^verbatim>\<open>plugin\<close>, the tool succeeds with
  \<^verbatim>\<open>{totalDocs: 1, byCategory: {plugin: 1}, byType: {guide: 1}}\<close>; if the scan yields no
  record, it succeeds with a total of 0 and empty breakdowns.
\<close>

theorem docs_stats_unseeded_and_seeded:
  "(vs_tableExists (vectorStore context) (tables_docs (config context)) = Inr False \<longrightarrow>
      (\<exists>calls e. docsStats_handler context = (calls, Inr (Failure e)))) \<and>
   (\<not> truthy (configError context) \<and>
    vs_tableExists (vectorStore context) (tables_docs (config context)) = Inr True \<and>
    vs_getStats (vectorStore context) (tables_docs (config context)) = Inr (length (concat batches)) \<and>
    vs_queryAll (vectorStore context) (tables_docs (config context)) = Inr batches \<longrightarrow>
      (concat batches = [row] \<and> d_type row = ''guide'' \<and> d_category row = Some ''plugin'' \<longrightarrow>
         snd (docsStats_handler context) =
           Inr (Success \<lparr> totalDocs = 1, byCategory = [''plugin'' \<mapsto> 1],
                          byType = [''guide'' \<mapsto> 1] \<rparr>)) \<and>
      (concat batches = [] \<longrightarrow>
         snd (docsStats_handler context) =
           Inr (Success \<lparr> totalDocs = 0, byCategory = Map.empty, byType = Map.empty \<rparr>)))"
proof (intro conjI impI)
  assume "vs_tableExists (vectorStore context) (tables_docs (config context)) = Inr False"
  from docsStats_missing[OF this]
  show "\<exists>calls e. docsStats_handler context = (calls, Inr (Failure e))"
    by (cases "truthy (configError context)") simp_all
next
  assume pre: "\<not> truthy (configError context) \<and>
    vs_tableExists (vectorStore context) (tables_docs (config context)) = Inr True \<and>
    vs_getStats (vectorStore context) (tables_docs (config context)) = Inr (length (concat batches)) \<and>
    vs_queryAll (vectorStore context) (tables_docs (config context)) = Inr batches"
  then have run: "snd (docsStats_handler context) =
           Inr (Success \<lparr> totalDocs = length (concat batches),
                  byCategory = fst (foldl count_row (Map.empty, Map.empty) (concat batches)),
                  byType = snd (foldl count_row (Map.empty, Map.empty) (concat batches)) \<rparr>)"
    by (intro docsStats_success) simp_all
  {
    assume "concat batches = [row] \<and> d_type row = ''guide'' \<and> d_category row = Some ''plugin''"
    then show "snd (docsStats_handler context) =
           Inr (Success \<lparr> totalDocs = 1, byCategory = [''plugin'' \<mapsto> 1],
                          byType = [''guide'' \<mapsto> 1] \<rparr>)"
      unfolding run by (simp add: count_row_def bump_def or_else_def)
  }
  {
    assume empty: "concat batches = []"
    show "snd (docsStats_handler context) =
           Inr (Success \<lparr> totalDocs = 0, byCategory = Map.empty, byType = Map.empty \<rparr>)"
      unfolding run empty by simp
  }
qed

theorem docs_stats_unseeded_and_seeded_witness:
  "docsStats_handler (seeded_context\<lparr>vectorStore := memory_store Map.empty\<rparr>) =
     ([TableExists ''hytale_docs''], Inr (Failure table_not_found)) \<and>
   docsStats_handler seeded_context =
     ([TableExists ''hytale_docs'', GetStats ''hytale_docs'', QueryAll ''hytale_docs''],
      Inr (Success \<lparr> totalDocs = 1, byCategory = [''plugin'' \<mapsto> 1], byType = [''guide'' \<mapsto> 1] \<rparr>))"
proof -
  let ?u = "seeded_context\<lparr>vectorStore := memory_store Map.empty\<rparr>"
  have missing: "vs_tableExists (vectorStore ?u) (tables_docs (config ?u)) = Inr False"
    by (simp add: seeded_context_def memory_store_def)
  from docs_stats_unseeded_and_seeded[of ?u] missing
  have "\<exists>calls e. docsStats_handler ?u = (calls, Inr (Failure e))" by blast
  moreover have "docsStats_handler ?u = ([TableExists ''hytale_docs''], Inr (Failure table_not_found))"
    by (simp add: docsStats_handler_def seeded_context_def memory_store_def truthy_def
          example_config_def Let_def)
  moreover have pre: "\<not> truthy (configError seeded_context) \<and>
      vs_tableExists (vectorStore seeded_context) (tables_docs (config seeded_context)) = Inr True \<and>
      vs_getStats (vectorStore seeded_context) (tables_docs (config seeded_context)) =
        Inr (length (concat [[guide_row]])) \<and>
      vs_queryAll (vectorStore seeded_context) (tables_docs (config seeded_context)) =
        Inr [[guide_row]]"
    by (simp add: seeded_context_def memory_store_def truthy_def example_config_def)
  have row: "concat [[guide_row]] = [guide_row] \<and> d_type guide_row = ''guide'' \<and>
             d_category guide_row = Some ''plugin''"
    by (simp add: guide_row_def)
  from docs_stats_unseeded_and_seeded[of seeded_context "[[guide_row]]" guide_row] pre row
  have "snd (docsStats_handler seeded_context) =
          Inr (Success \<lparr> totalDocs = 1, byCategory = [''plugin'' \<mapsto> 1],
                         byType = [''guide'' \<mapsto> 1] \<rparr>)"
    by blast
  ultimately show ?thesis using seeded_run by simp
qed

section \<open>Configuration errors at startup\<close>

lemma check_lines_nonempty: "check_lines ls = Some m \<Longrightarrow> m \<noteq> []"
  by (induction ls) (auto simp: env_message_def split: if_splits)

lemma validateApiKeyFormat_nonempty: "validateApiKeyFormat p k = Some m \<Longrightarrow> m \<noteq> []"
  by (auto simp: validateApiKeyFormat_def split: if_splits)

lemma config_error_nonempty: "config_error env cfg = Some e \<Longrightarrow> e \<noteq> []"
  by (auto simp: config_error_def Let_def truthy_def api_key_missing_def split: if_splits)

lemma searchDocs_config_error:
  "truthy (configError context) \<Longrightarrow>
     searchDocs_handler input context = ([], Inr (Failure (or_else (configError context) [])))"
  by (auto simp: searchDocs_handler_def truthy_def or_else_def split: option.splits)

lemma main_example: "main example_env example_config = Started [MCP] seeded_context"
  by (simp add: main_def config_error_def checkEnvFile_def example_env_def example_config_def
       truthy_def validateApiKeyFormat_def startsWith_def or_else_def servers_of_def seeded_context_def)

lemma no_key_error: "config_error unseeded_env no_key_config = Some (api_key_missing ''VOYAGE_API_KEY'')"
  by (simp add: config_error_def unseeded_env_def example_env_def no_key_config_def example_config_def
        checkEnvFile_def truthy_def envVar_def)

lemma no_key_rest_error:
  "config_error unseeded_env (no_key_config\<lparr>server_mode := ''rest''\<rparr>) = Some (api_key_missing ''VOYAGE_API_KEY'')"
  by (simp add: config_error_def unseeded_env_def example_env_def no_key_config_def example_config_def
        checkEnvFile_def truthy_def envVar_def)

text \<open>
  C6: when \<^verbatim>\<open>main\<close> finds a configuration error, the error is a non-empty message;
  in every mode other than \<^verbatim>\<open>mcp\<close> the process writes it to the error stream and exits
  with code 1; in the mode \<^verbatim>\<open>mcp\<close>, if the store connects, the MCP server is started on
  a context that stores the error and has no embedding provider, and on that context the
  documentation search returns the error as a failure, for every input, without a call to
  the provider or the store.
\<close>

theorem config_error_gates_startup:
  assumes "config_error env cfg = Some e"
  shows "e \<noteq> [] \<and>
     (server_mode cfg \<noteq> ''mcp'' \<longrightarrow> main env cfg = Exited 1 (''Error: '' @ e)) \<and>
     (server_mode cfg = ''mcp'' \<and> connect_error env = None \<longrightarrow>
        (\<exists>context. main env cfg = Started [MCP] context \<and> configError context = Some e \<and>
           embedding context = None \<and>
           (\<forall>input. searchDocs_handler input context = ([], Inr (Failure e)))))"
proof -
  have ne: "e \<noteq> []" using assms by (rule config_error_nonempty)
  then have t: "truthy (Some e)" by (simp add: truthy_def)
  have exited: "main env cfg = Exited 1 (''Error: '' @ e)" if "server_mode cfg \<noteq> ''mcp''"
    using that assms t ne by (simp add: main_def or_else_def)
  have start: "\<exists>context. main env cfg = Started [MCP] context \<and> configError context = Some e \<and>
           embedding context = None \<and>
           (\<forall>input. searchDocs_handler input context = ([], Inr (Failure e)))"
    if "server_mode cfg = ''mcp''" "connect_error env = None"
  proof -
    let ?c = "\<lparr> embedding = None, vectorStore = createVectorStore env cfg,
                 config = cfg, configError = Some e \<rparr>"
    have "main env cfg = Started [MCP] ?c"
      using that assms t by (simp add: main_def servers_of_def)
    moreover have "searchDocs_handler input ?c = ([], Inr (Failure e))" for input
      using searchDocs_config_error[of ?c input] t ne by (simp add: or_else_def)
    ultimately show ?thesis by simp
  qed
  show ?thesis using ne exited start by blast
qed

theorem config_error_gates_startup_witness:
  "main unseeded_env (no_key_config\<lparr>server_mode := ''rest''\<rparr>) =
     Exited 1 (''Error: '' @ api_key_missing ''VOYAGE_API_KEY'') \<and>
   main unseeded_env no_key_config = Started [MCP] no_key_context \<and>
   searchDocs_handler \<lparr> sd_query = ''how to create a block'', sd_type = None, sd_limit = Some 25 \<rparr>
       no_key_context =
     ([], Inr (Failure (api_key_missing ''VOYAGE_API_KEY'')))"
proof -
  have mode: "server_mode (no_key_config\<lparr>server_mode := ''rest''\<rparr>) \<noteq> ''mcp''" by simp
  have mcp: "server_mode no_key_config = ''mcp'' \<and> connect_error unseeded_env = None"
    by (simp add: no_key_config_def example_config_def unseeded_env_def example_env_def)
  from config_error_gates_startup[OF no_key_rest_error] mode
  have exited: "main unseeded_env (no_key_config\<lparr>server_mode := ''rest''\<rparr>) =
     Exited 1 (''Error: '' @ api_key_missing ''VOYAGE_API_KEY'')" by blast
  from config_error_gates_startup[OF no_key_error] mcp
  obtain ctx where c: "main unseeded_env no_key_config = Started [MCP] ctx"
    and h: "\<forall>input. searchDocs_handler input ctx = ([], Inr (Failure (api_key_missing ''VOYAGE_API_KEY'')))"
    by blast
  have "main unseeded_env no_key_config = Started [MCP] no_key_context"
    using no_key_error mcp
    by (simp add: main_def servers_of_def no_key_context_def truthy_def api_key_missing_def
          unseeded_env_def example_env_def)
  with c have "ctx = no_key_context" by simp
  with exited c h show ?thesis by simp
qed

section \<open>The registry\<close>

lemma get_search: "get_tool docs_registry ''search_hytale_docs'' = Some searchDocsTool"
  by (simp add: get_tool_def docs_registry_def register_def searchDocsTool_def docsStatsTool_def)

lemma get_stats: "get_tool docs_registry ''hytale_docs_stats'' = Some docsStatsTool"
  by (simp add: get_tool_def docs_registry_def register_def searchDocsTool_def docsStatsTool_def)

lemma invoke_limit_rejected:
  "invoke render_issues docs_registry ''search_hytale_docs''
       (JObj [(''query'', JStr ''farming''), (''limit'', JNum 25)]) ctx =
     Inr ([], Failure ''limit: Too big; '')"
  by (simp add: invoke_def get_search limit_25_rejected render_issues_def searchDocsTool_def)

lemma failing_context_run:
  "invoke render_issues docs_registry ''search_hytale_docs'' (JObj [(''query'', JStr ''farming'')])
       (seeded_context\<lparr>embedding := Some failing_provider\<rparr>) =
     Inr ([EmbedQuery ''farming'' ''text''], Failure ''Voyage API error: 401 Unauthorized'')"
  by (simp add: invoke_def get_search searchDocsTool_def safeParse_def searchDocsSchema_def
        query_field_def limit_field_def parse_field_def is_integer_def DOCS_TYPES_def
        as_SearchDocsInput_def tag_def searchDocs_handler_def seeded_context_def truthy_def
        failing_provider_def Let_def)

lemma find_append_new:
  "find P xs = None \<Longrightarrow> P d \<Longrightarrow> find P (xs @ [d]) = Some d"
  by (induction xs) (auto split: if_splits)

text \<open>
  C1: for a registered tool name, \<^verbatim>\<open>invoke\<close> returns a tool result on every raw
  input and every context, and never fails towards its caller. When the input fails
  validation against the schema of the tool, the result is a failure with the rendering of
  the issues, and the handler is not called. When the input is valid and the handler
  throws, the result is a failure with the message of the error; otherwise it is the
  result of the handler.
\<close>

theorem invoke_never_throws:
  assumes "get_tool reg n = Some d"
  shows "(\<exists>calls result. invoke render reg n rawInput context = Inr (calls, result)) \<and>
         (\<forall>issues. safeParse (inputSchema d) rawInput = Inl issues \<longrightarrow>
            invoke render reg n rawInput context = Inr ([], Failure (render issues))) \<and>
         (\<forall>validated calls message.
            safeParse (inputSchema d) rawInput = Inr validated \<and>
            handler d validated context = (calls, Inl message) \<longrightarrow>
              invoke render reg n rawInput context = Inr (calls, Failure message)) \<and>
         (\<forall>validated calls result.
            safeParse (inputSchema d) rawInput = Inr validated \<and>
            handler d validated context = (calls, Inr result) \<longrightarrow>
              invoke render reg n rawInput context = Inr (calls, result))"
  using assms
  by (auto simp: invoke_def split: sum.splits prod.splits)

theorem invoke_never_throws_witness:
  "get_tool docs_registry ''search_hytale_docs'' = Some searchDocsTool \<and>
   invoke render_issues docs_registry ''search_hytale_docs'' JNull seeded_context =
     Inr ([], Failure '': Invalid type; '') \<and>
   invoke render_issues docs_registry ''search_hytale_docs''
       (JObj [(''query'', JStr []), (''limit'', JStr ''ten'')]) seeded_context =
     Inr ([], Failure ''query: Too small; limit: Invalid type; '') \<and>
   invoke render_issues docs_registry ''search_hytale_docs'' (JObj [(''query'', JStr ''farming'')])
       (seeded_context\<lparr>embedding := Some failing_provider\<rparr>) =
     Inr ([EmbedQuery ''farming'' ''text''], Failure ''Voyage API error: 401 Unauthorized'')"
proof -
  note inst = invoke_never_throws[OF get_search, of render_issues _ seeded_context]
  have p1: "safeParse (inputSchema searchDocsTool) JNull = Inl [Issue [] InvalidType]"
    by (simp add: safeParse_def)
  have p2: "safeParse (inputSchema searchDocsTool) (JObj [(''query'', JStr []), (''limit'', JStr ''ten'')]) =
              Inl [Issue ''query'' TooSmall, Issue ''limit'' InvalidType]"
    by (simp add: searchDocsTool_def safeParse_def searchDocsSchema_def query_field_def
          limit_field_def parse_field_def DOCS_TYPES_def)
  have "invoke render_issues docs_registry ''search_hytale_docs'' JNull seeded_context =
          Inr ([], Failure (render_issues [Issue [] InvalidType]))"
    using inst[of JNull] p1 by blast
  moreover have "invoke render_issues docs_registry ''search_hytale_docs''
       (JObj [(''query'', JStr []), (''limit'', JStr ''ten'')]) seeded_context =
          Inr ([], Failure (render_issues [Issue ''query'' TooSmall, Issue ''limit'' InvalidType]))"
    using inst[of "JObj [(''query'', JStr []), (''limit'', JStr ''ten'')]"] p2 by blast
  ultimately show ?thesis
    using get_search failing_context_run by (simp add: render_issues_def)
qed

text \<open>
  C8: after a definition has been registered, registering a definition with the same name
  fails with \<^verbatim>\<open>DuplicateToolError\<close> and leaves the registry as it was: the name still
  resolves to the first definition and the list of tools is unchanged.
\<close>

theorem register_duplicate_rejected:
  assumes "register d1 reg = (None, reg1)" and "tool_name d2 = tool_name d1"
  shows "register d2 reg1 = (Some (DuplicateToolError (tool_name d1)), reg1) \<and>
         get_tool reg1 (tool_name d1) = Some d1 \<and>
         get_tool (snd (register d2 reg1)) (tool_name d1) = Some d1 \<and>
         list_tools (snd (register d2 reg1)) = list_tools reg @ [d1]"
proof -
  from assms(1) have fresh: "get_tool reg (tool_name d1) = None" and reg1: "reg1 = reg @ [d1]"
    by (auto simp: register_def split: if_splits)
  have found: "get_tool reg1 (tool_name d1) = Some d1"
    using fresh unfolding reg1 get_tool_def by (intro find_append_new) simp_all
  then have "register d2 reg1 = (Some (DuplicateToolError (tool_name d1)), reg1)"
    using assms(2) by (simp add: register_def)
  with found reg1 show ?thesis by (simp add: list_tools_def)
qed

theorem register_duplicate_rejected_witness:
  "register searchDocsTool [] = (None, [searchDocsTool]) \<and>
   register (docsStatsTool\<lparr>tool_name := ''search_hytale_docs''\<rparr>) [searchDocsTool] =
     (Some (DuplicateToolError ''search_hytale_docs''), [searchDocsTool]) \<and>
   get_tool [searchDocsTool] ''search_hytale_docs'' = Some searchDocsTool"
proof -
  have first: "register searchDocsTool [] = (None, [searchDocsTool])"
    by (simp add: register_def get_tool_def)
  have same: "tool_name (docsStatsTool\<lparr>tool_name := ''search_hytale_docs''\<rparr>) = tool_name searchDocsTool"
    by (simp add: searchDocsTool_def)
  have n: "tool_name searchDocsTool = ''search_hytale_docs''" by (simp add: searchDocsTool_def)
  from register_duplicate_rejected[OF first same] first n show ?thesis by simp
qed

section \<open>Embedding in batches\<close>

lemma embed_batches_aligned:
  "0 < bs \<Longrightarrow> embed_batches (\<lambda>batch. Inr (map vec_of batch)) bs texts acc =
     Some (Inr (acc @ map vec_of texts))"
proof (induction texts arbitrary: acc rule: length_induct)
  case (1 texts)
  show ?case
  proof (cases "texts = []")
    case True
    then show ?thesis by (subst embed_batches.simps) simp
  next
    case False
    with 1(2) have "length (drop bs texts) < length texts" by simp
    with 1 have "embed_batches (\<lambda>batch. Inr (map vec_of batch)) bs (drop bs texts) (acc @ map vec_of (take bs texts)) =
           Some (Inr ((acc @ map vec_of (take bs texts)) @ map vec_of (drop bs texts)))"
      by blast
    also have "(acc @ map vec_of (take bs texts)) @ map vec_of (drop bs texts) = acc @ map vec_of texts"
      by (simp add: map_append[symmetric] del: map_append)
    finally show ?thesis
      using False by (subst embed_batches.simps) simp
  qed
qed

lemma embed_batches_failure:
  "texts \<noteq> [] \<Longrightarrow> api (take bs texts) = Inl e \<Longrightarrow> embed_batches api bs texts acc = Some (Inl e)"
  by (subst embed_batches.simps) simp

lemma map_zip_index:
  "map (\<lambda>(x, i). f x (nth_opt (map g xs) i)) (zip xs [0 ..< length xs]) = map (\<lambda>x. f x (Some (g x))) xs"
  by (rule nth_equalityI) (simp_all add: nth_opt_def)

text \<open>
  C4: on a provider that embeds every text on its own (the vector of a text does not
  depend on the batch it is sent in) and a positive batch size, \<^verbatim>\<open>embedBatch\<close> returns,
  and returns the vectors of the texts in the order of the texts: the vector at index
  \<open>i\<close> is the vector of the text at index \<open>i\<close>. The result is the same for every
  positive batch size, in particular for 1 and 128. \<^verbatim>\<open>embedChunks\<close> therefore gives
  every chunk the vector of its own text.
\<close>

theorem embedBatch_order_preserving:
  assumes "0 < batchSize"
  shows "embedBatch (\<lambda>batch. Inr (map vec_of batch)) batchSize texts = Some (Inr (map vec_of texts)) \<and>
         embedBatch (\<lambda>batch. Inr (map vec_of batch)) 1 texts =
           embedBatch (\<lambda>batch. Inr (map vec_of batch)) 128 texts \<and>
         (\<forall>i < length texts. nth_opt (map vec_of texts) i = Some (vec_of (texts ! i))) \<and>
         embedChunks (\<lambda>key batch. Inr (map vec_of batch)) chunks apiKey =
           Some (Inr (map (\<lambda>chunk. MethodChunk.extend chunk
                         (EmbeddedChunk.fields (Some (vec_of (buildMethodEmbeddingText chunk)))))
                      chunks))"
proof -
  have any: "embedBatch (\<lambda>batch. Inr (map vec_of batch)) bs ts = Some (Inr (map vec_of ts))"
    if "0 < bs" for bs ts
    using embed_batches_aligned[OF that, of vec_of ts "[]"] by (simp add: embedBatch_def)
  have chunks: "embedChunks (\<lambda>key batch. Inr (map vec_of batch)) chunks apiKey =
           Some (Inr (map (\<lambda>chunk. MethodChunk.extend chunk
                         (EmbeddedChunk.fields (Some (vec_of (buildMethodEmbeddingText chunk)))))
                      chunks))"
    using map_zip_index[of "\<lambda>c v. MethodChunk.extend c (EmbeddedChunk.fields v)"
            "\<lambda>c. vec_of (buildMethodEmbeddingText c)" chunks]
    by (simp add: embedChunks_def any Let_def comp_def)
  show ?thesis
    using any[OF assms] any[of 1] any[of 128] chunks by (simp add: nth_opt_def)
qed

theorem embedBatch_order_preserving_witness:
  "(0::nat) < 2 \<and>
   embedBatch (\<lambda>batch. Inr (map length_embedding batch)) 2 [''a'', ''bb'', ''ccc''] =
     Some (Inr [[1], [2], [3]]) \<and>
   embedBatch (\<lambda>batch. Inr (map length_embedding batch)) 1 [''a'', ''bb'', ''ccc''] =
     embedBatch (\<lambda>batch. Inr (map length_embedding batch)) 128 [''a'', ''bb'', ''ccc'']"
  using embedBatch_order_preserving[of 2 length_embedding "[''a'', ''bb'', ''ccc'']"]
  by (simp add: length_embedding_def)

end
